theory Spec2Isabelle
  imports Main
begin

section \<open>Python values, exceptions and dictionaries\<close>

text \<open>
  The client of \<^verbatim>\<open>KiaUvoAPIUSA.py\<close> handles decoded JSON and a few plain Python
  values. They are one datatype here. A dictionary is an association list in insertion
  order with distinct keys; JSON numbers are integers (floating point numbers are outside
  the model).
\<close>

datatype pyval =
    PNone
  | PBool bool
  | PInt int
  | PStr string
  | PList "pyval list"
  | PDict "(string \<times> pyval) list"

text \<open>
  The exceptions the code can raise. \<^verbatim>\<open>AuthError\<close> is the subclass of
  \<^verbatim>\<open>RequestException\<close> declared in the module; \<open>PyException\<close> is the bare
  \<^verbatim>\<open>Exception\<close> that \<^verbatim>\<open>login\<close> raises; \<open>ConnectionError\<close> stands for a
  failure of the HTTP library itself.
\<close>

datatype exn =
    AuthError
  | RequestException
  | ConnectionError
  | PyException
  | KeyError
  | IndexError
  | TypeError
  | AttributeError
  | ValueError

text \<open>Python truthiness (\<^verbatim>\<open>if x\<close>, \<^verbatim>\<open>not x\<close>).\<close>

fun truthy :: "pyval \<Rightarrow> bool" where
  "truthy PNone = False"
| "truthy (PBool b) = b"
| "truthy (PInt n) = (n \<noteq> 0)"
| "truthy (PStr s) = (s \<noteq> [])"
| "truthy (PList xs) = (xs \<noteq> [])"
| "truthy (PDict d) = (d \<noteq> [])"

text \<open>\<^verbatim>\<open>x == k\<close> for an integer literal \<open>k\<close>: a bool is an int in Python.\<close>

fun py_eq_int :: "pyval \<Rightarrow> int \<Rightarrow> bool" where
  "py_eq_int (PInt n) k = (n = k)"
| "py_eq_int (PBool b) k = ((if b then 1 else 0) = k)"
| "py_eq_int _ k = False"

text \<open>\<^verbatim>\<open>d[k] = v\<close> on a dictionary: an existing key keeps its place.\<close>

fun dict_set :: "(string \<times> pyval) list \<Rightarrow> string \<Rightarrow> pyval \<Rightarrow> (string \<times> pyval) list" where
  "dict_set [] k v = [(k, v)]"
| "dict_set ((k', v') # d) k v = (if k' = k then (k, v) # d else (k', v') # dict_set d k v)"

text \<open>\<^verbatim>\<open>x[k]\<close> with a string key: \<^verbatim>\<open>KeyError\<close> on a dictionary without the key,
  \<^verbatim>\<open>TypeError\<close> on anything that is not a dictionary.\<close>

fun getitem :: "pyval \<Rightarrow> string \<Rightarrow> exn + pyval" where
  "getitem (PDict d) k = (case map_of d k of None \<Rightarrow> Inl KeyError | Some v \<Rightarrow> Inr v)"
| "getitem _ k = Inl TypeError"

text \<open>\<^verbatim>\<open>x[0]\<close>: the first element of a list or string, \<^verbatim>\<open>IndexError\<close> when it is
  empty; a decoded JSON dictionary has string keys only, so \<^verbatim>\<open>d[0]\<close> is a
  \<^verbatim>\<open>KeyError\<close>.\<close>

fun getitem0 :: "pyval \<Rightarrow> exn + pyval" where
  "getitem0 (PList []) = Inl IndexError"
| "getitem0 (PList (x # xs)) = Inr x"
| "getitem0 (PStr []) = Inl IndexError"
| "getitem0 (PStr (c # cs)) = Inr (PStr [c])"
| "getitem0 (PDict d) = Inl KeyError"
| "getitem0 _ = Inl TypeError"

text \<open>\<^verbatim>\<open>x[k] = v\<close> with a string key.\<close>

fun setitem :: "pyval \<Rightarrow> string \<Rightarrow> pyval \<Rightarrow> exn + pyval" where
  "setitem (PDict d) k v = Inr (PDict (dict_set d k v))"
| "setitem _ k v = Inl TypeError"

text \<open>\<^verbatim>\<open>x.get(k, dflt)\<close>; only dictionaries have the method.\<close>

fun py_get :: "pyval \<Rightarrow> string \<Rightarrow> pyval \<Rightarrow> exn + pyval" where
  "py_get (PDict d) k dflt = (case map_of d k of None \<Rightarrow> Inr dflt | Some v \<Rightarrow> Inr v)"
| "py_get _ k dflt = Inl AttributeError"

text \<open>\<^verbatim>\<open>x.values()\<close>.\<close>

fun py_values :: "pyval \<Rightarrow> exn + pyval list" where
  "py_values (PDict d) = Inr (map snd d)"
| "py_values _ = Inl AttributeError"

text \<open>A chain of subscripts \<^verbatim>\<open>x[k1][k2]...\<close>, evaluated left to right; the first failing
  subscript raises.\<close>

datatype subscript = K string | Idx0

fun path :: "pyval \<Rightarrow> subscript list \<Rightarrow> exn + pyval" where
  "path x [] = Inr x"
| "path x (K k # ks) = (case getitem x k of Inl e \<Rightarrow> Inl e | Inr y \<Rightarrow> path y ks)"
| "path x (Idx0 # ks) = (case getitem0 x of Inl e \<Rightarrow> Inl e | Inr y \<Rightarrow> path y ks)"

text \<open>Sequencing of computations that may raise.\<close>

definition ebind :: "exn + 'a \<Rightarrow> ('a \<Rightarrow> exn + 'b) \<Rightarrow> exn + 'b" where
  "ebind m f = (case m of Inl e \<Rightarrow> Inl e | Inr x \<Rightarrow> f x)"

section \<open>Token, client, responses and the world\<close>

text \<open>
  Modelled from the spec: the class \<^verbatim>\<open>Token\<close> (module \<^verbatim>\<open>Token.py\<close>) is imported by the
  source but is not among the source files. The spec lists its fields (access identifier,
  vehicle registration identifier, VIN, internal id, nickname, model, registration date,
  validity-until timestamp, freshness stamp); the source reads and writes
  \<^verbatim>\<open>access_token\<close>, \<^verbatim>\<open>vehicle_regid\<close> and \<^verbatim>\<open>valid_until\<close>, and calls
  \<^verbatim>\<open>token.set\<close> with ten positional arguments, whose second is \<^verbatim>\<open>None\<close> (a refresh
  token the USA backend does not have) and whose third, the VIN, the source's comment calls
  the device id. A fresh \<^verbatim>\<open>Token({})\<close> has every field unset.
\<close>

record token =
  access_token :: pyval
  refresh_token :: pyval
  tok_device_id :: pyval
  vehicle_name :: pyval
  vehicle_id :: pyval
  vehicle_regid :: pyval
  vehicle_model :: pyval
  vehicle_registration_date :: pyval
  valid_until :: pyval
  stamp :: pyval

definition Token_empty :: token where
  "Token_empty = \<lparr>access_token = PNone, refresh_token = PNone, tok_device_id = PNone,
     vehicle_name = PNone, vehicle_id = PNone, vehicle_regid = PNone, vehicle_model = PNone,
     vehicle_registration_date = PNone, valid_until = PNone, stamp = PNone\<rparr>"

definition Token_set ::
  "token \<Rightarrow> pyval \<Rightarrow> pyval \<Rightarrow> pyval \<Rightarrow> pyval \<Rightarrow> pyval \<Rightarrow> pyval \<Rightarrow> pyval \<Rightarrow> pyval \<Rightarrow> pyval \<Rightarrow> pyval \<Rightarrow> token" where
  "Token_set t a1 a2 a3 a4 a5 a6 a7 a8 a9 a10 =
     t\<lparr>access_token := a1, refresh_token := a2, tok_device_id := a3, vehicle_name := a4,
       vehicle_id := a5, vehicle_regid := a6, vehicle_model := a7,
       vehicle_registration_date := a8, valid_until := a9, stamp := a10\<rparr>"

text \<open>The attributes of a client object (\<^verbatim>\<open>self\<close>): those set by
  \<^verbatim>\<open>KiaUvoApiImpl.__init__\<close>, and those the subclass \<^verbatim>\<open>KiaUvoAPIUSA\<close> adds. Python
  does not check the annotations of the constructors, so an attribute holds whatever
  value it is given.\<close>

record KiaUvoApiImpl =
  username :: pyval
  password :: pyval
  pin :: pyval
  use_email_with_geocode_api :: pyval
  stamps :: pyval
  region :: pyval
  brand :: pyval

record KiaUvoAPIUSA = KiaUvoApiImpl +
  device_id :: string
  BASE_URL :: string
  API_URL :: string

definition KiaUvoApiImpl_init ::
  "pyval \<Rightarrow> pyval \<Rightarrow> pyval \<Rightarrow> pyval \<Rightarrow> pyval \<Rightarrow> pyval \<Rightarrow> KiaUvoApiImpl" where
  "KiaUvoApiImpl_init username' password' pin' region' brand' use_email_with_geocode_api' =
     \<lparr>username = username', password = password', pin = pin',
      use_email_with_geocode_api = use_email_with_geocode_api', stamps = PNone,
      region = region', brand = brand'\<rparr>"

text \<open>\<^verbatim>\<open>KiaUvoAPIUSA.__init__\<close>: the call of the base constructor passes its arguments by
  position. The two random parts of the device id (22 letters and digits, and
  \<^verbatim>\<open>secrets.token_urlsafe(105)\<close>) are parameters.\<close>

definition KiaUvoAPIUSA_init ::
  "pyval \<Rightarrow> pyval \<Rightarrow> pyval \<Rightarrow> pyval \<Rightarrow> pyval \<Rightarrow> pyval \<Rightarrow> string \<Rightarrow> string \<Rightarrow> KiaUvoAPIUSA" where
  "KiaUvoAPIUSA_init username' password' region' brand' use_email_with_geocode_api' pin' rnd urlsafe =
     (let base = KiaUvoApiImpl_init username' password' region' brand' use_email_with_geocode_api' pin';
          base_url = ''api.owners.kia.com''
      in KiaUvoApiImpl.extend base
           (KiaUvoAPIUSA.fields (rnd @ '':'' @ urlsafe) base_url (''https://'' @ base_url @ ''/apigw/v1/'')))"

text \<open>
  What the code reads from the platform it runs on: the local UTC offset in hours as
  printed by \<^verbatim>\<open>str(int(time.localtime().tm_gmtoff / 60 / 60))\<close>, the two
  \<^verbatim>\<open>strftime\<close> renderings of a time (the HTTP date of \<^verbatim>\<open>api_headers\<close>, and the
  constant \<^verbatim>\<open>DATE_FORMAT\<close> of \<^verbatim>\<open>const.py\<close>, which is not among the source files).
  Times are seconds on the world's clock.
\<close>

record platform =
  offset :: string
  strftime_http :: "int \<Rightarrow> string"
  strftime_DATE_FORMAT :: "int \<Rightarrow> string"

text \<open>A \<^verbatim>\<open>requests.Response\<close>: its headers and its body as \<^verbatim>\<open>response.json()\<close>
  decodes it (\<open>None\<close> when the body is not JSON, where \<^verbatim>\<open>json()\<close> raises a
  \<^verbatim>\<open>ValueError\<close>). Header names are looked up as the source spells them.\<close>

record response =
  resp_headers :: "(string \<times> string) list"
  resp_json :: "pyval option"

datatype http_method = GET | POST

text \<open>What the client does to the outside: HTTP requests (method, URL, headers and the
  \<^verbatim>\<open>json=\<close> argument, \<open>PNone\<close> when there is none), sleeps (seconds) and
  error-level log records.\<close>

datatype event =
    Request http_method string "(string \<times> pyval) list" pyval
  | Sleep int
  | LogError

text \<open>
  The world: the outcomes the network will deliver to the next requests, in order (a
  response, or an exception of the HTTP library), the trace of events so far, the clock,
  and the store of \<^verbatim>\<open>Token\<close> objects by address, so that a mutation of a Token is seen
  through every reference to it.
\<close>

record world =
  pending :: "(exn + response) list"
  trace :: "event list"
  clock :: int
  tokens :: "nat \<Rightarrow> token"

text \<open>\<^verbatim>\<open>requests.get\<close> and \<^verbatim>\<open>requests.post\<close>: the request is sent, the network answers with
  its next outcome; a network with nothing left to deliver is a connection failure.\<close>

definition requests_send ::
  "http_method \<Rightarrow> string \<Rightarrow> (string \<times> pyval) list \<Rightarrow> pyval \<Rightarrow> world \<Rightarrow> (exn + response) \<times> world" where
  "requests_send m url headers json w =
     (let w1 = w\<lparr>trace := trace w @ [Request m url headers json]\<rparr> in
      case pending w of
        [] \<Rightarrow> (Inl ConnectionError, w1)
      | r # rs \<Rightarrow> (r, w1\<lparr>pending := rs\<rparr>))"

definition time_sleep :: "int \<Rightarrow> world \<Rightarrow> world" where
  "time_sleep n w = w\<lparr>trace := trace w @ [Sleep n], clock := clock w + n\<rparr>"

definition log_error :: "world \<Rightarrow> world" where
  "log_error w = w\<lparr>trace := trace w @ [LogError]\<rparr>"

section \<open>Transport layer: headers\<close>

definition api_headers :: "platform \<Rightarrow> KiaUvoAPIUSA \<Rightarrow> world \<Rightarrow> (string \<times> pyval) list" where
  "api_headers pf self w =
     (let headers =
        [(''content-type'', PStr ''application/json;charset=UTF-8''),
         (''accept'', PStr ''application/json, text/plain, */*''),
         (''accept-encoding'', PStr ''gzip, deflate, br''),
         (''accept-language'', PStr ''en-US,en;q=0.9''),
         (''apptype'', PStr ''L''),
         (''appversion'', PStr ''4.10.0''),
         (''clientid'', PStr ''MWAMOBILE''),
         (''from'', PStr ''SPA''),
         (''host'', PStr (BASE_URL self)),
         (''language'', PStr ''0''),
         (''offset'', PStr (offset pf)),
         (''ostype'', PStr ''Android''),
         (''osversion'', PStr ''11''),
         (''secretkey'', PStr ''98er-w34rf-ibf3-3f6h''),
         (''to'', PStr ''APIGW''),
         (''tokentype'', PStr ''G''),
         (''user-agent'', PStr ''okhttp/3.12.1'')];
      headers = dict_set headers ''date'' (PStr (strftime_http pf (clock w)));
      headers = dict_set headers ''deviceid'' (PStr (device_id self))
      in headers)"

definition authed_api_headers :: "platform \<Rightarrow> KiaUvoAPIUSA \<Rightarrow> nat \<Rightarrow> world \<Rightarrow> (string \<times> pyval) list" where
  "authed_api_headers pf self tk w =
     (let headers = api_headers pf self w;
          headers = dict_set headers ''sid'' (access_token (tokens w tk));
          headers = dict_set headers ''vinkey'' (vehicle_regid (tokens w tk))
      in headers)"

section \<open>Backend client: login\<close>

definition login :: "platform \<Rightarrow> KiaUvoAPIUSA \<Rightarrow> world \<Rightarrow> (exn + token) \<times> world" where
  "login pf self w =
     (let url = API_URL self @ ''prof/authUser'';
          data = PDict
            [(''deviceKey'', PStr []),
             (''deviceType'', PInt 2),
             (''userCredential'', PDict [(''userId'', username self), (''password'', password self)])];
          headers = api_headers pf self w
      in case requests_send POST url headers data w of
        (Inl e, w1) \<Rightarrow> (Inl e, w1)
      | (Inr response, w1) \<Rightarrow>
          (case map_of (resp_headers response) ''sid'' of
             None \<Rightarrow> (Inl PyException, w1)
           | Some session_id \<Rightarrow>
               if \<not> truthy (PStr session_id) then (Inl PyException, w1)
               else
                 (let url = API_URL self @ ''ownr/gvl'';
                      headers = api_headers pf self w1;
                      headers = dict_set headers ''sid'' (PStr session_id)
                  in case requests_send GET url headers PNone w1 of
                    (Inl e, w2) \<Rightarrow> (Inl e, w2)
                  | (Inr response, w2) \<Rightarrow>
                      (case resp_json response of
                         None \<Rightarrow> (Inl ValueError, w2)
                       | Some response \<Rightarrow>
                           (ebind (path response [K ''payload'', K ''vehicleSummary'', Idx0]) (\<lambda>vehicle_summary.
                            ebind (getitem vehicle_summary ''nickName'') (\<lambda>vehicle_name.
                            ebind (getitem vehicle_summary ''vehicleIdentifier'') (\<lambda>vehicle_id.
                            ebind (getitem vehicle_summary ''vin'') (\<lambda>vehicle_vin.
                            ebind (getitem vehicle_summary ''vehicleKey'') (\<lambda>vehicle_key.
                            ebind (getitem vehicle_summary ''modelName'') (\<lambda>vehicle_model.
                            ebind (py_get vehicle_summary ''enrollmentDate'' (PStr ''missing''))
                              (\<lambda>vehicle_registration_date.
                            let valid_until = PStr (strftime_DATE_FORMAT pf (clock w2 + 3600))
                            in Inr (Token_set Token_empty (PStr session_id) PNone vehicle_vin
                                 vehicle_name vehicle_id vehicle_key vehicle_model
                                 vehicle_registration_date valid_until (PStr ''NoStamp''))))))))),
                            w2)))))"

section \<open>Session guard\<close>

text \<open>
  The keyword arguments of a call (\<^verbatim>\<open>**kwargs\<close>): \<open>None\<close> for a keyword that is not
  passed. Every call site passes \<^verbatim>\<open>self\<close> as the only positional argument.
\<close>

record kwargs =
  kw_token :: "nat option"
  kw_url :: "string option"
  kw_json_body :: "pyval option"
  kw_headers :: "(string \<times> pyval) list option"

text \<open>\<^verbatim>\<open>response_json["status"][k]\<close>.\<close>

definition status_field :: "pyval \<Rightarrow> string \<Rightarrow> exn + pyval" where
  "status_field response_json k = path response_json [K ''status'', K k]"

text \<open>The condition of the second \<^verbatim>\<open>if\<close> of \<^verbatim>\<open>request_with_logging_wrapper\<close>;
  \<^verbatim>\<open>and\<close> evaluates a later operand only when the earlier ones hold.\<close>

definition session_invalid :: "pyval \<Rightarrow> exn + bool" where
  "session_invalid response_json =
     ebind (status_field response_json ''statusCode'') (\<lambda>sc.
       if \<not> py_eq_int sc 1 then Inr False
       else ebind (status_field response_json ''errorType'') (\<lambda>et.
         if \<not> py_eq_int et 1 then Inr False
         else ebind (status_field response_json ''errorCode'') (\<lambda>ec.
           Inr (py_eq_int ec 1003))))"

definition request_with_logging ::
  "(kwargs \<Rightarrow> world \<Rightarrow> (exn + response) \<times> world) \<Rightarrow> kwargs \<Rightarrow> world \<Rightarrow> (exn + response) \<times> world" where
  "request_with_logging func kw w =
     (case kw_url kw of
        None \<Rightarrow> (Inl KeyError, w)
      | Some url \<Rightarrow>
          (case func kw w of
             (Inl e, w1) \<Rightarrow> (Inl e, w1)
           | (Inr response, w1) \<Rightarrow>
               (case resp_json response of
                  None \<Rightarrow> (Inl ValueError, w1)
                | Some response_json \<Rightarrow>
                    (case status_field response_json ''statusCode'' of
                       Inl e \<Rightarrow> (Inl e, w1)
                     | Inr sc \<Rightarrow>
                         if py_eq_int sc 0 then (Inr response, w1)
                         else
                           (case session_invalid response_json of
                              Inl e \<Rightarrow> (Inl e, w1)
                            | Inr True \<Rightarrow> (Inl AuthError, w1)
                            | Inr False \<Rightarrow> (Inl RequestException, log_error w1))))))"

text \<open>The rewrite of the request body after a fresh login:
  \<^verbatim>\<open>if json_body is not None and json_body.get("vinKey", None): json_body["vinKey"] = [token.vehicle_regid]\<close>.
  The dictionary is mutated in place and \<^verbatim>\<open>kwargs\<close> refers to it, so the retried call
  receives the rewritten body.\<close>

definition rewrite_vinKey :: "kwargs \<Rightarrow> pyval \<Rightarrow> exn + kwargs" where
  "rewrite_vinKey kw regid =
     (case kw_json_body kw of
        None \<Rightarrow> Inr kw
      | Some PNone \<Rightarrow> Inr kw
      | Some json_body \<Rightarrow>
          ebind (py_get json_body ''vinKey'' PNone) (\<lambda>v.
            if truthy v
            then ebind (setitem json_body ''vinKey'' (PList [regid]))
                   (\<lambda>json_body. Inr (kw\<lparr>kw_json_body := Some json_body\<rparr>))
            else Inr kw))"

text \<open>The decorator \<^verbatim>\<open>request_with_active_session\<close>; \<open>lg\<close> is the bound method
  \<^verbatim>\<open>self.login\<close>.\<close>

definition request_with_active_session ::
  "(world \<Rightarrow> (exn + token) \<times> world) \<Rightarrow> (kwargs \<Rightarrow> world \<Rightarrow> (exn + response) \<times> world)
     \<Rightarrow> kwargs \<Rightarrow> world \<Rightarrow> (exn + response) \<times> world" where
  "request_with_active_session lg func kw w =
     (case func kw w of
        (Inl AuthError, w1) \<Rightarrow>
          (case kw_token kw of
             None \<Rightarrow> (Inl KeyError, w1)
           | Some tk \<Rightarrow>
               (case lg w1 of
                  (Inl e, w2) \<Rightarrow> (Inl e, w2)
                | (Inr new_token, w2) \<Rightarrow>
                    (let w3 = w2\<lparr>tokens := (tokens w2)
                           (tk := (tokens w2 tk)\<lparr>access_token := access_token new_token,
                                                 vehicle_regid := vehicle_regid new_token,
                                                 valid_until := valid_until new_token\<rparr>)\<rparr>
                     in case rewrite_vinKey kw (vehicle_regid (tokens w3 tk)) of
                          Inl e \<Rightarrow> (Inl e, w3)
                        | Inr kw' \<Rightarrow> func kw' w3)))
      | r \<Rightarrow> r)"

section \<open>Transport layer: the two authenticated calls\<close>

text \<open>The undecorated methods. Python binds the keywords to the parameters first: a
  keyword the signature does not have, or a missing parameter, is a \<^verbatim>\<open>TypeError\<close>
  raised before the body runs.\<close>

definition post_request :: "platform \<Rightarrow> KiaUvoAPIUSA \<Rightarrow> kwargs \<Rightarrow> world \<Rightarrow> (exn + response) \<times> world" where
  "post_request pf self kw w =
     (case (kw_token kw, kw_url kw, kw_json_body kw, kw_headers kw) of
        (Some tk, Some url, Some json_body, None) \<Rightarrow>
          (let headers = authed_api_headers pf self tk w
           in requests_send POST url headers json_body w)
      | _ \<Rightarrow> (Inl TypeError, w))"

definition get_request :: "platform \<Rightarrow> KiaUvoAPIUSA \<Rightarrow> kwargs \<Rightarrow> world \<Rightarrow> (exn + response) \<times> world" where
  "get_request pf self kw w =
     (case (kw_token kw, kw_url kw, kw_json_body kw, kw_headers kw) of
        (Some tk, Some url, None, None) \<Rightarrow>
          (let headers = authed_api_headers pf self tk w
           in requests_send GET url headers PNone w)
      | _ \<Rightarrow> (Inl TypeError, w))"

definition post_request_with_logging_and_active_session ::
  "platform \<Rightarrow> KiaUvoAPIUSA \<Rightarrow> kwargs \<Rightarrow> world \<Rightarrow> (exn + response) \<times> world" where
  "post_request_with_logging_and_active_session pf self =
     request_with_active_session (login pf self) (request_with_logging (post_request pf self))"

definition get_request_with_logging_and_active_session ::
  "platform \<Rightarrow> KiaUvoAPIUSA \<Rightarrow> kwargs \<Rightarrow> world \<Rightarrow> (exn + response) \<times> world" where
  "get_request_with_logging_and_active_session pf self =
     request_with_active_session (login pf self) (request_with_logging (get_request pf self))"

section \<open>Action poller\<close>

text \<open>
  The loop of \<^verbatim>\<open>check_action_status\<close> has no bound, so it is a partial function: the
  value \<open>None\<close> is a poll that never ends. \<^verbatim>\<open>completed\<close> is false on entry, so the
  body runs at least once.
\<close>

partial_function (option) poll_loop ::
  "platform \<Rightarrow> KiaUvoAPIUSA \<Rightarrow> nat \<Rightarrow> string \<Rightarrow> world \<Rightarrow> ((exn + bool) \<times> world) option" where
  "poll_loop pf self tk xid w =
     (let w1 = time_sleep 10 w;
          url = API_URL self @ ''cmm/gts'';
          body = PDict [(''xid'', PStr xid)]
      in case post_request_with_logging_and_active_session pf self
                \<lparr>kw_token = Some tk, kw_url = Some url, kw_json_body = Some body, kw_headers = None\<rparr> w1 of
           (Inl e, w2) \<Rightarrow> Some (Inl e, w2)
         | (Inr response, w2) \<Rightarrow>
             (case resp_json response of
                None \<Rightarrow> Some (Inl ValueError, w2)
              | Some response_json \<Rightarrow>
                  (case ebind (getitem response_json ''payload'') py_values of
                     Inl e \<Rightarrow> Some (Inl e, w2)
                   | Inr vs \<Rightarrow>
                       if list_all (\<lambda>v. py_eq_int v 0) vs then Some (Inr True, w2)
                       else poll_loop pf self tk xid w2)))"

definition check_action_status ::
  "platform \<Rightarrow> KiaUvoAPIUSA \<Rightarrow> nat \<Rightarrow> string \<Rightarrow> world \<Rightarrow> ((exn + bool) \<times> world) option" where
  "check_action_status pf self tk xid w = poll_loop pf self tk xid (time_sleep 15 w)"

section \<open>Backend client: vehicle commands\<close>

text \<open>The last statement of every command,
  \<^verbatim>\<open>self.check_action_status(token, response.headers["Xid"])\<close>; the command returns
  \<^verbatim>\<open>None\<close> when the poller has returned.\<close>

definition poll_Xid ::
  "platform \<Rightarrow> KiaUvoAPIUSA \<Rightarrow> nat \<Rightarrow> response \<Rightarrow> world \<Rightarrow> ((exn + unit) \<times> world) option" where
  "poll_Xid pf self tk response w =
     (case map_of (resp_headers response) ''Xid'' of
        None \<Rightarrow> Some (Inl KeyError, w)
      | Some xid \<Rightarrow>
          (case check_action_status pf self tk xid w of
             None \<Rightarrow> None
           | Some (Inl e, w') \<Rightarrow> Some (Inl e, w')
           | Some (Inr completed, w') \<Rightarrow> Some (Inr (), w')))"

definition update_vehicle_status ::
  "platform \<Rightarrow> KiaUvoAPIUSA \<Rightarrow> nat \<Rightarrow> world \<Rightarrow> (exn + unit) \<times> world" where
  "update_vehicle_status pf self tk w =
     (let url = API_URL self @ ''rems/rvs'';
          body = PDict [(''requestType'', PInt 0)]
      in case post_request_with_logging_and_active_session pf self
                \<lparr>kw_token = Some tk, kw_url = Some url, kw_json_body = Some body, kw_headers = None\<rparr> w of
           (Inl e, w1) \<Rightarrow> (Inl e, w1)
         | (Inr response, w1) \<Rightarrow> (Inr (), w1))"

definition lock_action ::
  "platform \<Rightarrow> KiaUvoAPIUSA \<Rightarrow> nat \<Rightarrow> pyval \<Rightarrow> world \<Rightarrow> ((exn + unit) \<times> world) option" where
  "lock_action pf self tk action w =
     (let url = (if action = PStr ''close'' then API_URL self @ ''rems/door/lock''
                 else API_URL self @ ''rems/door/unlock'');
          headers = authed_api_headers pf self tk w
      in case get_request_with_logging_and_active_session pf self
                \<lparr>kw_token = Some tk, kw_url = Some url, kw_json_body = None, kw_headers = Some headers\<rparr> w of
           (Inl e, w1) \<Rightarrow> Some (Inl e, w1)
         | (Inr response, w1) \<Rightarrow> poll_Xid pf self tk response w1)"

text \<open>\<^verbatim>\<open>str(set_temp)\<close> for an integer temperature.\<close>

fun str_nat :: "nat \<Rightarrow> string" where
  "str_nat n = (if n < 10 then [''0123456789'' ! n] else str_nat (n div 10) @ [''0123456789'' ! (n mod 10)])"

definition str_int :: "int \<Rightarrow> string" where
  "str_int i = (if i < 0 then CHR ''-'' # str_nat (nat (- i)) else str_nat (nat i))"

text \<open>\<^verbatim>\<open>start_climate\<close>, for an integer \<^verbatim>\<open>set_temp\<close> and a boolean \<^verbatim>\<open>heating\<close>
  (\<^verbatim>\<open>int(True)\<close> is 1); the other arguments go into the body as they are.\<close>

definition start_climate ::
  "platform \<Rightarrow> KiaUvoAPIUSA \<Rightarrow> nat \<Rightarrow> int \<Rightarrow> pyval \<Rightarrow> pyval \<Rightarrow> pyval \<Rightarrow> bool \<Rightarrow> world
     \<Rightarrow> ((exn + unit) \<times> world) option" where
  "start_climate pf self tk set_temp duration defrost climate heating w =
     (let url = API_URL self @ ''rems/start'';
          body = PDict
            [(''remoteClimate'', PDict
               [(''airCtrl'', climate),
                (''airTemp'', PDict [(''unit'', PInt 1), (''value'', PStr (str_int set_temp))]),
                (''defrost'', defrost),
                (''heatingAccessory'', PDict
                   [(''rearWindow'', PInt (if heating then 1 else 0)),
                    (''sideMirror'', PInt (if heating then 1 else 0)),
                    (''steeringWheel'', PInt (if heating then 1 else 0))]),
                (''ignitionOnDuration'', PDict [(''unit'', PInt 4), (''value'', duration)])])]
      in case post_request_with_logging_and_active_session pf self
                \<lparr>kw_token = Some tk, kw_url = Some url, kw_json_body = Some body, kw_headers = None\<rparr> w of
           (Inl e, w1) \<Rightarrow> Some (Inl e, w1)
         | (Inr response, w1) \<Rightarrow> poll_Xid pf self tk response w1)"

definition stop_climate ::
  "platform \<Rightarrow> KiaUvoAPIUSA \<Rightarrow> nat \<Rightarrow> world \<Rightarrow> ((exn + unit) \<times> world) option" where
  "stop_climate pf self tk w =
     (let url = API_URL self @ ''rems/stop''
      in case get_request_with_logging_and_active_session pf self
                \<lparr>kw_token = Some tk, kw_url = Some url, kw_json_body = None, kw_headers = None\<rparr> w of
           (Inl e, w1) \<Rightarrow> Some (Inl e, w1)
         | (Inr response, w1) \<Rightarrow> poll_Xid pf self tk response w1)"

definition start_charge ::
  "platform \<Rightarrow> KiaUvoAPIUSA \<Rightarrow> nat \<Rightarrow> world \<Rightarrow> ((exn + unit) \<times> world) option" where
  "start_charge pf self tk w =
     (let url = API_URL self @ ''evc/charge'';
          body = PDict [(''chargeRatio'', PInt 100)]
      in case post_request_with_logging_and_active_session pf self
                \<lparr>kw_token = Some tk, kw_url = Some url, kw_json_body = Some body, kw_headers = None\<rparr> w of
           (Inl e, w1) \<Rightarrow> Some (Inl e, w1)
         | (Inr response, w1) \<Rightarrow> poll_Xid pf self tk response w1)"

definition stop_charge ::
  "platform \<Rightarrow> KiaUvoAPIUSA \<Rightarrow> nat \<Rightarrow> world \<Rightarrow> ((exn + unit) \<times> world) option" where
  "stop_charge pf self tk w =
     (let url = API_URL self @ ''evc/cancel''
      in case get_request_with_logging_and_active_session pf self
                \<lparr>kw_token = Some tk, kw_url = Some url, kw_json_body = None, kw_headers = None\<rparr> w of
           (Inl e, w1) \<Rightarrow> Some (Inl e, w1)
         | (Inr response, w1) \<Rightarrow> poll_Xid pf self tk response w1)"

section \<open>Backend client: cached vehicle status\<close>

text \<open>\<^verbatim>\<open>d[k] = d[p1][p2]...\<close>: the right-hand side is read first, then stored.\<close>

definition copy_into :: "pyval \<Rightarrow> string \<Rightarrow> subscript list \<Rightarrow> exn + pyval" where
  "copy_into d k p = ebind (path d p) (\<lambda>v. setitem d k v)"

text \<open>The part of \<^verbatim>\<open>get_cached_vehicle_status\<close> after the request: from the decoded
  response body to \<^verbatim>\<open>vehicle_data\<close>. The variable \<open>vs\<close> is the dictionary
  \<^verbatim>\<open>vehicle_data["vehicleStatus"]\<close>, which the code extends key by key. Python's
  builtin \<^verbatim>\<open>float\<close> is the parameter \<open>py_float\<close>: it gives, for a value, the
  float the conversion returns or the exception it raises (\<^verbatim>\<open>ValueError\<close> for a string
  that is not a number, \<^verbatim>\<open>TypeError\<close> for \<^verbatim>\<open>None\<close>, a list or a mapping). The code
  only stores that float, so nothing here depends on how it is represented.\<close>

definition vehicle_data_of :: "(pyval \<Rightarrow> exn + pyval) \<Rightarrow> pyval \<Rightarrow> exn + pyval" where
  "vehicle_data_of py_float response_body =
     ebind (path response_body [K ''payload'', K ''vehicleInfoList'', Idx0, K ''lastVehicleInfo'',
                                K ''vehicleStatusRpt'', K ''vehicleStatus'']) (\<lambda>vs.
     ebind (path response_body [K ''payload'', K ''vehicleInfoList'', Idx0, K ''vehicleConfig'',
                                K ''vehicleDetail'', K ''vehicle'', K ''mileage'']) (\<lambda>mileage.
     ebind (py_float mileage) (\<lambda>odometer.
     ebind (path response_body [K ''payload'', K ''vehicleInfoList'', Idx0, K ''lastVehicleInfo'',
                                K ''location'']) (\<lambda>vehicleLocation.
     ebind (copy_into vs ''time'' [K ''syncDate'', K ''utc'']) (\<lambda>vs.
     ebind (copy_into vs ''doorOpen'' [K ''doorStatus'']) (\<lambda>vs.
     ebind (copy_into vs ''trunkOpen'' [K ''doorStatus'', K ''trunk'']) (\<lambda>vs.
     ebind (copy_into vs ''hoodOpen'' [K ''doorStatus'', K ''hood'']) (\<lambda>vs.
     ebind (path vs [K ''tirePressure'', K ''all'']) (\<lambda>tirePressureLampAll.
     ebind (setitem vs ''tirePressureLamp'' (PDict [(''tirePressureLampAll'', tirePressureLampAll)])) (\<lambda>vs.
     ebind (copy_into vs ''airCtrlOn'' [K ''climate'', K ''airCtrl'']) (\<lambda>vs.
     ebind (copy_into vs ''defrost'' [K ''climate'', K ''defrost'']) (\<lambda>vs.
     ebind (copy_into vs ''sideBackWindowHeat'' [K ''climate'', K ''heatingAccessory'', K ''rearWindow'']) (\<lambda>vs.
     ebind (copy_into vs ''sideMirrorHeat'' [K ''climate'', K ''heatingAccessory'', K ''sideMirror'']) (\<lambda>vs.
     ebind (copy_into vs ''steerWheelHeat'' [K ''climate'', K ''heatingAccessory'', K ''steeringWheel'']) (\<lambda>vs.
     ebind (copy_into vs ''airTemp'' [K ''climate'', K ''airTemp'']) (\<lambda>vs.
       Inr (PDict
         [(''vehicleStatus'', vs),
          (''odometer'', PDict [(''value'', odometer), (''unit'', PInt 3)]),
          (''vehicleLocation'', vehicleLocation)])))))))))))))))))"

definition get_cached_vehicle_status ::
  "platform \<Rightarrow> (pyval \<Rightarrow> exn + pyval) \<Rightarrow> KiaUvoAPIUSA \<Rightarrow> nat \<Rightarrow> world \<Rightarrow> (exn + pyval) \<times> world" where
  "get_cached_vehicle_status pf py_float self tk w =
     (let url = API_URL self @ ''cmm/gvi'';
          body = PDict
            [(''vehicleConfigReq'', PDict
               [(''airTempRange'', PStr ''0''),
                (''maintenance'', PStr ''0''),
                (''seatHeatCoolOption'', PStr ''0''),
                (''vehicle'', PStr ''1''),
                (''vehicleFeature'', PStr ''0'')]),
             (''vehicleInfoReq'', PDict
               [(''drivingActivty'', PStr ''0''),
                (''dtc'', PStr ''1''),
                (''enrollment'', PStr ''1''),
                (''functionalCards'', PStr ''0''),
                (''location'', PStr ''1''),
                (''vehicleStatus'', PStr ''1''),
                (''weather'', PStr ''0'')]),
             (''vinKey'', PList [vehicle_regid (tokens w tk)])]
      in case post_request_with_logging_and_active_session pf self
                \<lparr>kw_token = Some tk, kw_url = Some url, kw_json_body = Some body, kw_headers = None\<rparr> w of
           (Inl e, w1) \<Rightarrow> (Inl e, w1)
         | (Inr response, w1) \<Rightarrow>
             (case resp_json response of
                None \<Rightarrow> (Inl ValueError, w1)
              | Some response_body \<Rightarrow> (vehicle_data_of py_float response_body, w1)))"

section \<open>Concrete scenarios and observations\<close>

text \<open>A platform, a client, a Token and network responses on which the theorems below are
  instantiated, and the observations of traces and responses in which they are stated.\<close>

definition demo_platform :: platform where
  "demo_platform = \<lparr>offset = ''-5'', strftime_http = (\<lambda>t. ''HTTP '' @ str_int t),
     strftime_DATE_FORMAT = str_int\<rparr>"

definition demo_self :: KiaUvoAPIUSA where
  "demo_self = KiaUvoAPIUSA_init (PStr ''user'') (PStr ''secret'') (PInt 3) (PInt 1) (PBool False)
     (PStr ''1234'') ''dev'' ''rnd''"

definition demo_token :: token where
  "demo_token = Token_set Token_empty (PStr ''SID1'') PNone (PStr ''VIN1'') (PStr ''car'')
     (PStr ''id1'') (PStr ''KEY1'') (PStr ''EV6'') (PStr ''2021'') (PStr ''900'') (PStr ''NoStamp'')"

definition demo_world :: "(exn + response) list \<Rightarrow> world" where
  "demo_world ps = \<lparr>pending = ps, trace = [], clock = 1000, tokens = (\<lambda>a. demo_token)\<rparr>"

definition status_json :: "int \<Rightarrow> int \<Rightarrow> int \<Rightarrow> pyval" where
  "status_json sc et ec =
     PDict [(''statusCode'', PInt sc), (''errorType'', PInt et), (''errorCode'', PInt ec)]"

definition resp_invalid :: response where
  "resp_invalid = \<lparr>resp_headers = [], resp_json = Some (PDict [(''status'', status_json 1 1 1003)])\<rparr>"

definition resp_auth :: response where
  "resp_auth = \<lparr>resp_headers = [(''sid'', ''SID2'')], resp_json = Some (PDict [(''status'', status_json 0 0 0)])\<rparr>"

definition resp_vehicles :: response where
  "resp_vehicles = \<lparr>resp_headers = [],
     resp_json = Some (PDict
       [(''status'', status_json 0 0 0),
        (''payload'', PDict [(''vehicleSummary'', PList
           [PDict [(''nickName'', PStr ''car''), (''vehicleIdentifier'', PStr ''id2''),
                   (''vin'', PStr ''VIN2''), (''vehicleKey'', PStr ''KEY2''),
                   (''modelName'', PStr ''EV6'')],
            PDict [(''nickName'', PStr ''other''), (''vehicleIdentifier'', PStr ''id3''),
                   (''vin'', PStr ''VIN3''), (''vehicleKey'', PStr ''KEY3''),
                   (''modelName'', PStr ''Niro''), (''enrollmentDate'', PStr ''2020'')]])])])\<rparr>"

definition resp_busy :: response where
  "resp_busy = \<lparr>resp_headers = [], resp_json = Some (PDict [(''status'', status_json 1 1 1005)])\<rparr>"

text \<open>A response whose envelope holds a status code and nothing else, and the keywords of
  a GET call.\<close>

definition resp_status_only :: "int \<Rightarrow> response" where
  "resp_status_only sc =
     \<lparr>resp_headers = [], resp_json = Some (PDict [(''status'', PDict [(''statusCode'', PInt sc)])])\<rparr>"

definition demo_kw_get :: kwargs where
  "demo_kw_get = \<lparr>kw_token = Some 0, kw_url = Some ''https://api.owners.kia.com/apigw/v1/rems/stop'',
      kw_json_body = None, kw_headers = None\<rparr>"

text \<open>The number of requests to a URL among the events of a trace.\<close>

definition attempts :: "string \<Rightarrow> event list \<Rightarrow> nat" where
  "attempts url es = length (filter (\<lambda>e. case e of Request m u h b \<Rightarrow> u = url | _ \<Rightarrow> False) es)"

text \<open>A response that the logging wrapper classifies as session-invalid.\<close>

definition session_invalid_response :: "response \<Rightarrow> bool" where
  "session_invalid_response r =
     (case resp_json r of None \<Rightarrow> False | Some response_json \<Rightarrow> session_invalid response_json = Inr True)"

text \<open>The keywords of a call bind to the parameters of the undecorated method: token and
  url are passed, \<^verbatim>\<open>headers\<close> is not, and \<^verbatim>\<open>json_body\<close> is passed exactly to the POST
  method.\<close>

definition binds :: "platform \<Rightarrow> KiaUvoAPIUSA \<Rightarrow> (kwargs \<Rightarrow> world \<Rightarrow> (exn + response) \<times> world) \<Rightarrow> kwargs \<Rightarrow> bool" where
  "binds pf self raw kw =
     (kw_token kw \<noteq> None \<and> kw_url kw \<noteq> None \<and> kw_headers kw = None \<and>
      (raw = post_request pf self \<and> kw_json_body kw \<noteq> None \<or>
       raw = get_request pf self \<and> kw_json_body kw = None))"

definition demo_kw :: kwargs where
  "demo_kw = \<lparr>kw_token = Some 0, kw_url = Some ''https://api.owners.kia.com/apigw/v1/rems/rvs'',
      kw_json_body = Some (PDict [(''requestType'', PInt 0)]), kw_headers = None\<rparr>"

text \<open>The \<^verbatim>\<open>json=\<close> arguments of the requests to a URL among the events of a trace, in
  order.\<close>

definition sent_to :: "string \<Rightarrow> event list \<Rightarrow> pyval list" where
  "sent_to url es = concat (map (\<lambda>e. case e of Request m u h b \<Rightarrow> (if u = url then [b] else []) | _ \<Rightarrow> []) es)"

text \<open>The headers of the requests to a URL among the events of a trace, in order.\<close>

definition headers_to :: "string \<Rightarrow> event list \<Rightarrow> (string \<times> pyval) list list" where
  "headers_to url es = concat (map (\<lambda>e. case e of Request m u h b \<Rightarrow> (if u = url then [h] else []) | _ \<Rightarrow> []) es)"

text \<open>A successful answer that carries a command handle, and a call of the status endpoint
  whose \<^verbatim>\<open>vinKey\<close> holds the registration identifier of the stale Token.\<close>

definition resp_ok :: response where
  "resp_ok = \<lparr>resp_headers = [(''Xid'', ''X1'')], resp_json = Some (PDict [(''status'', status_json 0 0 0)])\<rparr>"

definition demo_kw_vinKey :: kwargs where
  "demo_kw_vinKey = \<lparr>kw_token = Some 0, kw_url = Some ''https://api.owners.kia.com/apigw/v1/cmm/gvi'',
      kw_json_body = Some (PDict [(''vinKey'', PList [PStr ''KEY1'']), (''vehicleInfoReq'', PStr ''1'')]),
      kw_headers = None\<rparr>"

text \<open>The codes of the sub-checks in a successful answer of the command-status endpoint:
  the values of its \<^verbatim>\<open>payload\<close> mapping, when the status code is 0 and the payload is a
  mapping.\<close>

definition sub_checks :: "response \<Rightarrow> pyval list option" where
  "sub_checks r =
     (case resp_json r of
        None \<Rightarrow> None
      | Some response_json \<Rightarrow>
          (case status_field response_json ''statusCode'' of
             Inl e \<Rightarrow> None
           | Inr sc \<Rightarrow>
               if py_eq_int sc 0
               then (case ebind (getitem response_json ''payload'') py_values of
                       Inl e \<Rightarrow> None
                     | Inr vs \<Rightarrow> Some vs)
               else None))"

text \<open>An event without the headers of its request (they hold the date of the clock).\<close>

definition erase_headers :: "event \<Rightarrow> event" where
  "erase_headers e = (case e of Request m u h b \<Rightarrow> Request m u [] b | _ \<Rightarrow> e)"

text \<open>The answer of the command-status endpoint with the payload \<^verbatim>\<open>{a: x, b: y}\<close>.\<close>

definition resp_poll :: "int \<Rightarrow> int \<Rightarrow> response" where
  "resp_poll a b = \<lparr>resp_headers = [],
     resp_json = Some (PDict [(''status'', status_json 0 0 0),
                              (''payload'', PDict [(''a'', PInt a), (''b'', PInt b)])])\<rparr>"

text \<open>What \<^verbatim>\<open>get_cached_vehicle_status\<close> reads from the vehicle status dictionary, and the
  keys it adds to it.\<close>

definition status_reads :: "subscript list list" where
  "status_reads =
     [[K ''syncDate'', K ''utc''],
      [K ''doorStatus''],
      [K ''doorStatus'', K ''trunk''],
      [K ''doorStatus'', K ''hood''],
      [K ''tirePressure'', K ''all''],
      [K ''climate'', K ''airCtrl''],
      [K ''climate'', K ''defrost''],
      [K ''climate'', K ''heatingAccessory'', K ''rearWindow''],
      [K ''climate'', K ''heatingAccessory'', K ''sideMirror''],
      [K ''climate'', K ''heatingAccessory'', K ''steeringWheel''],
      [K ''climate'', K ''airTemp'']]"

definition status_keys :: "string list" where
  "status_keys =
     [''time'', ''doorOpen'', ''trunkOpen'', ''hoodOpen'', ''tirePressureLamp'', ''airCtrlOn'',
      ''defrost'', ''sideBackWindowHeat'', ''sideMirrorHeat'', ''steerWheelHeat'', ''airTemp'']"

text \<open>Where the response body holds the vehicle status, the mileage and the location.\<close>

definition status_path :: "subscript list" where
  "status_path = [K ''payload'', K ''vehicleInfoList'', Idx0, K ''lastVehicleInfo'',
                  K ''vehicleStatusRpt'', K ''vehicleStatus'']"

definition mileage_path :: "subscript list" where
  "mileage_path = [K ''payload'', K ''vehicleInfoList'', Idx0, K ''vehicleConfig'',
                   K ''vehicleDetail'', K ''vehicle'', K ''mileage'']"

definition location_path :: "subscript list" where
  "location_path = [K ''payload'', K ''vehicleInfoList'', Idx0, K ''lastVehicleInfo'', K ''location'']"

text \<open>The exception of the first read that fails when the subscript chains \<open>ps\<close> are
  evaluated on \<open>x\<close> one after the other; \<open>None\<close> when every read succeeds.\<close>

fun first_failure :: "pyval \<Rightarrow> subscript list list \<Rightarrow> exn option" where
  "first_failure x [] = None"
| "first_failure x (p # ps) = (case path x p of Inl e \<Rightarrow> Some e | Inr v \<Rightarrow> first_failure x ps)"

text \<open>The exception of the first evaluation that fails in \<^verbatim>\<open>get_cached_vehicle_status\<close>
  after the request, in the order of the source: the dictionary display reads the vehicle
  status, reads the mileage and converts it with \<^verbatim>\<open>float\<close>, and reads the location; the
  statements after it make the eleven reads of the vehicle status. \<open>None\<close> when none of
  them fails.\<close>

definition first_error :: "(pyval \<Rightarrow> exn + pyval) \<Rightarrow> pyval \<Rightarrow> exn option" where
  "first_error py_float response_body =
     (case path response_body status_path of
        Inl e \<Rightarrow> Some e
      | Inr vs \<Rightarrow>
          (case path response_body mileage_path of
             Inl e \<Rightarrow> Some e
           | Inr mileage \<Rightarrow>
               (case py_float mileage of
                  Inl e \<Rightarrow> Some e
                | Inr odometer \<Rightarrow>
                    (case path response_body location_path of
                       Inl e \<Rightarrow> Some e
                     | Inr vehicleLocation \<Rightarrow> first_failure vs status_reads))))"

text \<open>The normalized keys that are copies, each with the subscript chain whose value it is
  given. (The twelfth assignment, to \<^verbatim>\<open>tirePressureLamp\<close>, stores a new mapping.)\<close>

definition status_copies :: "(string \<times> subscript list) list" where
  "status_copies =
     [(''time'', [K ''syncDate'', K ''utc'']),
      (''doorOpen'', [K ''doorStatus'']),
      (''trunkOpen'', [K ''doorStatus'', K ''trunk'']),
      (''hoodOpen'', [K ''doorStatus'', K ''hood'']),
      (''airCtrlOn'', [K ''climate'', K ''airCtrl'']),
      (''defrost'', [K ''climate'', K ''defrost'']),
      (''sideBackWindowHeat'', [K ''climate'', K ''heatingAccessory'', K ''rearWindow'']),
      (''sideMirrorHeat'', [K ''climate'', K ''heatingAccessory'', K ''sideMirror'']),
      (''steerWheelHeat'', [K ''climate'', K ''heatingAccessory'', K ''steeringWheel'']),
      (''airTemp'', [K ''climate'', K ''airTemp''])]"

text \<open>A response body around a given vehicle status, a vehicle status with every section the
  code reads, and the same without the tire-pressure section.\<close>

definition demo_status_body :: "(string \<times> pyval) list \<Rightarrow> pyval" where
  "demo_status_body vs =
     PDict [(''status'', status_json 0 0 0),
            (''payload'', PDict [(''vehicleInfoList'', PList
               [PDict [(''lastVehicleInfo'', PDict
                          [(''vehicleStatusRpt'', PDict [(''vehicleStatus'', PDict vs)]),
                           (''location'', PDict [(''lat'', PInt 40), (''lon'', PInt 74)])]),
                       (''vehicleConfig'', PDict
                          [(''vehicleDetail'', PDict [(''vehicle'', PDict [(''mileage'', PStr ''1234'')])])])]])])]"

definition demo_vehicleStatus :: "(string \<times> pyval) list" where
  "demo_vehicleStatus =
     [(''syncDate'', PDict [(''utc'', PStr ''20211018'')]),
      (''doorStatus'', PDict [(''trunk'', PInt 0), (''hood'', PInt 0)]),
      (''tirePressure'', PDict [(''all'', PInt 0)]),
      (''climate'', PDict [(''airCtrl'', PBool False), (''defrost'', PBool False),
          (''heatingAccessory'', PDict [(''rearWindow'', PInt 0), (''sideMirror'', PInt 0),
                                        (''steeringWheel'', PInt 0)]),
          (''airTemp'', PDict [(''value'', PStr ''72''), (''unit'', PInt 1)])])]"

definition demo_vehicleStatus_no_tirePressure :: "(string \<times> pyval) list" where
  "demo_vehicleStatus_no_tirePressure =
     [(''syncDate'', PDict [(''utc'', PStr ''20211018'')]),
      (''doorStatus'', PDict [(''trunk'', PInt 0), (''hood'', PInt 0)]),
      (''climate'', PDict [(''airCtrl'', PBool False), (''defrost'', PBool False),
          (''heatingAccessory'', PDict [(''rearWindow'', PInt 0), (''sideMirror'', PInt 0),
                                        (''steeringWheel'', PInt 0)]),
          (''airTemp'', PDict [(''value'', PStr ''72''), (''unit'', PInt 1)])])]"

text \<open>The vehicle status whose tire-pressure section is \<^verbatim>\<open>null\<close>.\<close>

definition demo_vehicleStatus_null_tirePressure :: "(string \<times> pyval) list" where
  "demo_vehicleStatus_null_tirePressure =
     [(''syncDate'', PDict [(''utc'', PStr ''20211018'')]),
      (''doorStatus'', PDict [(''trunk'', PInt 0), (''hood'', PInt 0)]),
      (''tirePressure'', PNone),
      (''climate'', PDict [(''airCtrl'', PBool False), (''defrost'', PBool False),
          (''heatingAccessory'', PDict [(''rearWindow'', PInt 0), (''sideMirror'', PInt 0),
                                        (''steeringWheel'', PInt 0)]),
          (''airTemp'', PDict [(''value'', PStr ''72''), (''unit'', PInt 1)])])]"

text \<open>The answer to a vehicle command: success, with the command handle in its headers.\<close>

definition resp_command :: response where
  "resp_command = \<lparr>resp_headers = [(''Xid'', ''X1'')],
     resp_json = Some (PDict [(''status'', status_json 0 0 0), (''payload'', PDict [])])\<rparr>"

section \<open>Properties: construction of the client\<close>

text \<open>
  Claim C10. Constructing the USA client permutes its configuration: the subclass passes
  (username, password, region, brand, use_email_with_geocode_api, pin) by position to a
  base constructor declared as (username, password, pin, region, brand,
  use_email_with_geocode_api). After construction the stored pin is the supplied region,
  the stored region is the supplied brand, the stored brand is the supplied geocode flag
  and the stored geocode flag is the supplied pin; username and password are stored as
  supplied.
\<close>

theorem KiaUvoAPIUSA_init_permutes:
  "pin (KiaUvoAPIUSA_init usr pwd rgn brd geo pn rnd urlsafe) = rgn \<and>
   region (KiaUvoAPIUSA_init usr pwd rgn brd geo pn rnd urlsafe) = brd \<and>
   brand (KiaUvoAPIUSA_init usr pwd rgn brd geo pn rnd urlsafe) = geo \<and>
   use_email_with_geocode_api (KiaUvoAPIUSA_init usr pwd rgn brd geo pn rnd urlsafe) = pn \<and>
   username (KiaUvoAPIUSA_init usr pwd rgn brd geo pn rnd urlsafe) = usr \<and>
   password (KiaUvoAPIUSA_init usr pwd rgn brd geo pn rnd urlsafe) = pwd"
  by (simp add: KiaUvoAPIUSA_init_def KiaUvoApiImpl_init_def KiaUvoApiImpl.defs KiaUvoAPIUSA.defs)

section \<open>Properties: the lock command\<close>

text \<open>
  Claim C9. For every token and action value, \<^verbatim>\<open>lock_action\<close> fails before any transport
  attempt: it passes a \<^verbatim>\<open>headers\<close> keyword through the session guard and the logging
  wrapper to \<^verbatim>\<open>get_request_with_logging_and_active_session\<close>, whose signature accepts
  only self, token and url. The call raises \<^verbatim>\<open>TypeError\<close> and the world is as it was: no
  request is sent, nothing is slept, no Token is touched.
\<close>

theorem lock_action_TypeError:
  "lock_action pf self tk action w = Some (Inl TypeError, w)"
  by (simp add: lock_action_def get_request_with_logging_and_active_session_def
      request_with_active_session_def request_with_logging_def get_request_def)

section \<open>Properties: login\<close>

text \<open>
  Claim C5. When the answer to the authentication request has no \<^verbatim>\<open>sid\<close> header, login
  fails at once with the exception it raises for a missing session id (the bare
  \<^verbatim>\<open>Exception\<close> of the source, the spec's AuthenticationFailedError), and the
  authentication request is the only request it has sent: the vehicle list is not
  fetched and the rest of the network's answers is untouched.
\<close>

theorem login_without_sid_fails_fast:
  assumes "pending w = Inr response # rest"
      and "map_of (resp_headers response) ''sid'' = None"
  shows "login pf self w =
           (Inl PyException,
            w\<lparr>trace := trace w @
                 [Request POST (API_URL self @ ''prof/authUser'') (api_headers pf self w)
                    (PDict [(''deviceKey'', PStr []), (''deviceType'', PInt 2),
                       (''userCredential'',
                        PDict [(''userId'', username self), (''password'', password self)])])],
              pending := rest\<rparr>)"
  using assms by (simp add: login_def requests_send_def)

theorem login_without_sid_fails_fast_witness:
  "pending (demo_world [Inr resp_invalid, Inr resp_vehicles]) = [Inr resp_invalid, Inr resp_vehicles] \<and>
   map_of (resp_headers resp_invalid) ''sid'' = None \<and>
   fst (login demo_platform demo_self (demo_world [Inr resp_invalid, Inr resp_vehicles])) = Inl PyException \<and>
   length (trace (snd (login demo_platform demo_self (demo_world [Inr resp_invalid, Inr resp_vehicles])))) = 1 \<and>
   pending (snd (login demo_platform demo_self (demo_world [Inr resp_invalid, Inr resp_vehicles]))) = [Inr resp_vehicles]"
  using login_without_sid_fails_fast [of "demo_world [Inr resp_invalid, Inr resp_vehicles]"
      resp_invalid "[Inr resp_vehicles]" demo_platform demo_self]
  by (simp add: demo_world_def resp_invalid_def)

text \<open>The first element of a list reached by two keys, when a key can be read from
  it: the list is not empty and its first element is a dictionary.\<close>

lemma path_first_dict:
  assumes "path body [K a, K b, Idx0] = Inr s" "getitem s k = Inr v"
  shows "\<exists>summary others. path body [K a, K b] = Inr (PList (PDict summary # others)) \<and> s = PDict summary"
proof -
  from assms(1) obtain x y where x: "getitem body a = Inr x" and y: "getitem x b = Inr y"
    and z: "getitem0 y = Inr s"
    by (auto split: sum.splits)
  from assms(2) obtain summary where s: "s = PDict summary"
    by (cases s) auto
  from z s obtain others where "y = PList (PDict summary # others)"
    by (cases y rule: getitem0.cases) auto
  with x y s show ?thesis by simp
qed

text \<open>
  Claim C7. A successful login returns a Token all of whose fields were assigned by the one
  call of \<^verbatim>\<open>token.set\<close> (a failing login returns no Token at all, so no partly
  assigned Token can be seen): the session id is the non-empty \<^verbatim>\<open>sid\<close> header of the
  authentication answer, the refresh token is \<^verbatim>\<open>None\<close>, the VIN, nickname,
  identifier, key and model are those of the first vehicle of the fetched vehicle list,
  the registration date is its \<^verbatim>\<open>enrollmentDate\<close> or the marker \<^verbatim>\<open>"missing"\<close>, the
  validity-until timestamp is the rendering of the current time plus one hour, and the
  stamp is \<^verbatim>\<open>"NoStamp"\<close>. Login has consumed exactly the two answers.
\<close>

theorem login_token_fully_populated:
  assumes "login pf self w = (Inr t, w')"
  shows "\<exists>auth vehicles session_id body summary others.
           pending w = Inr auth # Inr vehicles # pending w' \<and>
           map_of (resp_headers auth) ''sid'' = Some session_id \<and> session_id \<noteq> [] \<and>
           resp_json vehicles = Some body \<and>
           path body [K ''payload'', K ''vehicleSummary''] = Inr (PList (PDict summary # others)) \<and>
           access_token t = PStr session_id \<and>
           refresh_token t = PNone \<and>
           map_of summary ''vin'' = Some (tok_device_id t) \<and>
           map_of summary ''nickName'' = Some (vehicle_name t) \<and>
           map_of summary ''vehicleIdentifier'' = Some (vehicle_id t) \<and>
           map_of summary ''vehicleKey'' = Some (vehicle_regid t) \<and>
           map_of summary ''modelName'' = Some (vehicle_model t) \<and>
           vehicle_registration_date t =
             (case map_of summary ''enrollmentDate'' of None \<Rightarrow> PStr ''missing'' | Some d \<Rightarrow> d) \<and>
           valid_until t = PStr (strftime_DATE_FORMAT pf (clock w' + 3600)) \<and>
           stamp t = PStr ''NoStamp''"
proof -
  from assms obtain auth ps where p1: "pending w = Inr auth # ps"
    by (auto simp: login_def requests_send_def Let_def split: list.splits sum.splits)
  from assms p1 obtain session_id where sid: "map_of (resp_headers auth) ''sid'' = Some session_id"
    and ne: "session_id \<noteq> []"
    by (auto simp: login_def requests_send_def Let_def split: option.splits if_splits)
  from assms p1 sid ne obtain vehicles ps' where p2: "ps = Inr vehicles # ps'"
    by (auto simp: login_def requests_send_def Let_def split: list.splits sum.splits)
  from assms p1 sid ne p2 obtain body where body: "resp_json vehicles = Some body"
    by (auto simp: login_def requests_send_def Let_def split: option.splits)
  from assms p1 sid ne p2 body have w': "pending w' = ps'" "clock w' = clock w"
    by (auto simp: login_def requests_send_def Let_def)
  from assms p1 sid ne p2 body have
    tk: "ebind (path body [K ''payload'', K ''vehicleSummary'', Idx0]) (\<lambda>vehicle_summary.
         ebind (getitem vehicle_summary ''nickName'') (\<lambda>vehicle_name.
         ebind (getitem vehicle_summary ''vehicleIdentifier'') (\<lambda>vehicle_id.
         ebind (getitem vehicle_summary ''vin'') (\<lambda>vehicle_vin.
         ebind (getitem vehicle_summary ''vehicleKey'') (\<lambda>vehicle_key.
         ebind (getitem vehicle_summary ''modelName'') (\<lambda>vehicle_model.
         ebind (py_get vehicle_summary ''enrollmentDate'' (PStr ''missing''))
           (\<lambda>vehicle_registration_date.
           Inr (Token_set Token_empty (PStr session_id) PNone vehicle_vin
                  vehicle_name vehicle_id vehicle_key vehicle_model
                  vehicle_registration_date (PStr (strftime_DATE_FORMAT pf (clock w + 3600)))
                  (PStr ''NoStamp''))))))))) = Inr t"
    by (simp add: login_def requests_send_def Let_def)
  then obtain s nm where s: "path body [K ''payload'', K ''vehicleSummary'', Idx0] = Inr s"
    and nm: "getitem s ''nickName'' = Inr nm"
    unfolding ebind_def by (auto split: sum.splits)
  from path_first_dict [OF s nm] obtain summary others where
    ps: "path body [K ''payload'', K ''vehicleSummary''] = Inr (PList (PDict summary # others))"
    and sd: "s = PDict summary" by blast
  from tk s sd have
    "access_token t = PStr session_id \<and>
           refresh_token t = PNone \<and>
           map_of summary ''vin'' = Some (tok_device_id t) \<and>
           map_of summary ''nickName'' = Some (vehicle_name t) \<and>
           map_of summary ''vehicleIdentifier'' = Some (vehicle_id t) \<and>
           map_of summary ''vehicleKey'' = Some (vehicle_regid t) \<and>
           map_of summary ''modelName'' = Some (vehicle_model t) \<and>
           vehicle_registration_date t =
             (case map_of summary ''enrollmentDate'' of None \<Rightarrow> PStr ''missing'' | Some d \<Rightarrow> d) \<and>
           valid_until t = PStr (strftime_DATE_FORMAT pf (clock w + 3600)) \<and>
           stamp t = PStr ''NoStamp''"
    unfolding ebind_def Token_set_def Token_empty_def
    by (auto split: sum.splits option.splits)
  with p1 p2 sid ne body w' ps show ?thesis by auto
qed

text \<open>The login of the concrete scenario, evaluated.\<close>

lemma login_demo:
  "login demo_platform demo_self (demo_world [Inr resp_auth, Inr resp_vehicles, Inr resp_invalid]) =
     (Inr \<lparr>access_token = PStr ''SID2'', refresh_token = PNone, tok_device_id = PStr ''VIN2'',
           vehicle_name = PStr ''car'', vehicle_id = PStr ''id2'', vehicle_regid = PStr ''KEY2'',
           vehicle_model = PStr ''EV6'', vehicle_registration_date = PStr ''missing'',
           valid_until = PStr ''4600'', stamp = PStr ''NoStamp''\<rparr>,
      \<lparr>pending = [Inr resp_invalid],
       trace = [Request POST ''https://api.owners.kia.com/apigw/v1/prof/authUser''
                  (api_headers demo_platform demo_self (demo_world []))
                  (PDict [(''deviceKey'', PStr []), (''deviceType'', PInt 2),
                     (''userCredential'', PDict [(''userId'', PStr ''user''), (''password'', PStr ''secret'')])]),
                Request GET ''https://api.owners.kia.com/apigw/v1/ownr/gvl''
                  (api_headers demo_platform demo_self (demo_world []) @ [(''sid'', PStr ''SID2'')]) PNone],
       clock = 1000, tokens = (\<lambda>a. demo_token)\<rparr>)"
  by (simp add: login_def requests_send_def demo_world_def resp_auth_def resp_vehicles_def
      ebind_def Token_set_def Token_empty_def demo_platform_def str_int_def Let_def
      demo_self_def KiaUvoAPIUSA_init_def KiaUvoApiImpl_init_def KiaUvoApiImpl.defs KiaUvoAPIUSA.defs
      api_headers_def)

theorem login_token_fully_populated_witness:
  "\<exists>t w'. login demo_platform demo_self (demo_world [Inr resp_auth, Inr resp_vehicles, Inr resp_invalid]) = (Inr t, w')
     \<and> access_token t = PStr ''SID2'' \<and> vehicle_regid t = PStr ''KEY2'' \<and> tok_device_id t = PStr ''VIN2''
     \<and> valid_until t = PStr (strftime_DATE_FORMAT demo_platform (1000 + 3600))"
  using login_token_fully_populated [OF login_demo] unfolding login_demo
  by (simp add: demo_world_def resp_auth_def resp_vehicles_def demo_platform_def str_int_def)

section \<open>Properties: the session guard\<close>

text \<open>The guard returns what the wrapped call returns unless that is an \<^verbatim>\<open>AuthError\<close>.\<close>

lemma guard_passes:
  "fst (func kw w) \<noteq> Inl AuthError \<Longrightarrow> request_with_active_session lg func kw w = func kw w"
  by (auto simp: request_with_active_session_def split: prod.splits sum.splits exn.splits)

text \<open>Python's \<^verbatim>\<open>==\<close> with the three integer literals of the classification, written
  out: the JSON booleans compare equal to 0 and 1.\<close>

lemma py_eq_int_iff:
  "py_eq_int v 0 \<longleftrightarrow> v = PInt 0 \<or> v = PBool False"
  "py_eq_int v 1 \<longleftrightarrow> v = PInt 1 \<or> v = PBool True"
  "py_eq_int v 1003 \<longleftrightarrow> v = PInt 1003"
  by (cases v; auto)+

text \<open>
  Claim C3. For every call whose request returned a response that decodes to an envelope
  with a readable status code, the classification is a trichotomy on the status fields
  (written with the values themselves: the JSON values \<^verbatim>\<open>false\<close> and \<^verbatim>\<open>true\<close> count as
  the codes 0 and 1, as Python's \<^verbatim>\<open>==\<close> has it). Status code 0 returns the response
  unchanged, in the world the request left, whatever else the envelope holds. Status code
  1 with errorType 1 and errorCode 1003 raises \<^verbatim>\<open>AuthError\<close>, and nothing is logged.
  Every other status code (any code other than 0 and 1, whatever else the envelope holds;
  code 1 with another errorType; code 1 with errorType 1 and another errorCode) appends
  one error-level log record to the trace and raises the generic
  \<^verbatim>\<open>RequestException\<close>, and the session guard returns that very outcome in that very
  world: no login, no second call. The code reads errorType only for status code 1, and
  errorCode only for errorType 1, so only there the fields are required to be readable.
\<close>

theorem logging_classification:
  assumes "kw_url kw = Some url"
      and "func kw w = (Inr response, w1)"
      and "resp_json response = Some response_json"
      and "status_field response_json ''statusCode'' = Inr sc"
  shows "(sc = PInt 0 \<or> sc = PBool False \<longrightarrow>
            request_with_logging func kw w = (Inr response, w1)) \<and>
         (sc \<noteq> PInt 0 \<and> sc \<noteq> PBool False \<and> sc \<noteq> PInt 1 \<and> sc \<noteq> PBool True \<longrightarrow>
            request_with_logging func kw w =
              (Inl RequestException, w1\<lparr>trace := trace w1 @ [LogError]\<rparr>) \<and>
            request_with_active_session lg (request_with_logging func) kw w =
              (Inl RequestException, w1\<lparr>trace := trace w1 @ [LogError]\<rparr>)) \<and>
         (sc = PInt 1 \<or> sc = PBool True \<longrightarrow>
            (\<forall>et. status_field response_json ''errorType'' = Inr et \<longrightarrow>
               (et \<noteq> PInt 1 \<and> et \<noteq> PBool True \<longrightarrow>
                  request_with_logging func kw w =
                    (Inl RequestException, w1\<lparr>trace := trace w1 @ [LogError]\<rparr>) \<and>
                  request_with_active_session lg (request_with_logging func) kw w =
                    (Inl RequestException, w1\<lparr>trace := trace w1 @ [LogError]\<rparr>)) \<and>
               (et = PInt 1 \<or> et = PBool True \<longrightarrow>
                  (\<forall>ec. status_field response_json ''errorCode'' = Inr ec \<longrightarrow>
                     (ec = PInt 1003 \<longrightarrow>
                        request_with_logging func kw w = (Inl AuthError, w1)) \<and>
                     (ec \<noteq> PInt 1003 \<longrightarrow>
                        request_with_logging func kw w =
                          (Inl RequestException, w1\<lparr>trace := trace w1 @ [LogError]\<rparr>) \<and>
                        request_with_active_session lg (request_with_logging func) kw w =
                          (Inl RequestException, w1\<lparr>trace := trace w1 @ [LogError]\<rparr>))))))"
proof -
  have g: "request_with_logging func kw w =
           (if py_eq_int sc 0 then (Inr response, w1)
            else case session_invalid response_json of
                   Inl e \<Rightarrow> (Inl e, w1)
                 | Inr True \<Rightarrow> (Inl AuthError, w1)
                 | Inr False \<Rightarrow> (Inl RequestException, w1\<lparr>trace := trace w1 @ [LogError]\<rparr>))"
    using assms by (simp add: request_with_logging_def log_error_def split: sum.splits bool.splits)
  have p: "request_with_active_session lg (request_with_logging func) kw w = (Inl RequestException, w')"
    if "request_with_logging func kw w = (Inl RequestException, w')" for w'
    using guard_passes [of "request_with_logging func" kw w lg] that by simp
  have a: "sc = PInt 0 \<or> sc = PBool False \<longrightarrow> request_with_logging func kw w = (Inr response, w1)"
    using g by (auto simp: py_eq_int_iff)
  have b: "request_with_logging func kw w = (Inl RequestException, w1\<lparr>trace := trace w1 @ [LogError]\<rparr>)"
    if "sc \<noteq> PInt 0 \<and> sc \<noteq> PBool False \<and> sc \<noteq> PInt 1 \<and> sc \<noteq> PBool True"
    using g that assms(4) by (simp add: py_eq_int_iff session_invalid_def ebind_def)
  have c: "request_with_logging func kw w = (Inl RequestException, w1\<lparr>trace := trace w1 @ [LogError]\<rparr>)"
    if "sc = PInt 1 \<or> sc = PBool True" "status_field response_json ''errorType'' = Inr et"
      "et \<noteq> PInt 1 \<and> et \<noteq> PBool True" for et
    using g that assms(4) by (auto simp: py_eq_int_iff session_invalid_def ebind_def)
  have d: "request_with_logging func kw w = (Inl AuthError, w1)"
    if "sc = PInt 1 \<or> sc = PBool True" "status_field response_json ''errorType'' = Inr et"
      "et = PInt 1 \<or> et = PBool True" "status_field response_json ''errorCode'' = Inr (PInt 1003)" for et
    using g that assms(4) by (auto simp: py_eq_int_iff session_invalid_def ebind_def)
  have e: "request_with_logging func kw w = (Inl RequestException, w1\<lparr>trace := trace w1 @ [LogError]\<rparr>)"
    if "sc = PInt 1 \<or> sc = PBool True" "status_field response_json ''errorType'' = Inr et"
      "et = PInt 1 \<or> et = PBool True" "status_field response_json ''errorCode'' = Inr ec"
      "ec \<noteq> PInt 1003" for et ec
    using g that assms(4) by (auto simp: py_eq_int_iff session_invalid_def ebind_def)
  from a b c d e p show ?thesis by blast
qed

theorem logging_classification_witness:
  "fst (request_with_logging (get_request demo_platform demo_self) demo_kw_get
          (demo_world [Inr (resp_status_only 0), Inr resp_auth])) = Inr (resp_status_only 0) \<and>
   map erase_headers (trace (snd (request_with_logging (get_request demo_platform demo_self) demo_kw_get
          (demo_world [Inr (resp_status_only 0), Inr resp_auth])))) =
     [Request GET ''https://api.owners.kia.com/apigw/v1/rems/stop'' [] PNone] \<and>
   pending (snd (request_with_logging (get_request demo_platform demo_self) demo_kw_get
          (demo_world [Inr (resp_status_only 0), Inr resp_auth]))) = [Inr resp_auth] \<and>
   fst (get_request_with_logging_and_active_session demo_platform demo_self demo_kw_get
          (demo_world [Inr (resp_status_only 2), Inr resp_auth])) = Inl RequestException \<and>
   map erase_headers (trace (snd (get_request_with_logging_and_active_session demo_platform demo_self demo_kw_get
          (demo_world [Inr (resp_status_only 2), Inr resp_auth])))) =
     [Request GET ''https://api.owners.kia.com/apigw/v1/rems/stop'' [] PNone, LogError] \<and>
   pending (snd (get_request_with_logging_and_active_session demo_platform demo_self demo_kw_get
          (demo_world [Inr (resp_status_only 2), Inr resp_auth]))) = [Inr resp_auth] \<and>
   fst (request_with_logging (get_request demo_platform demo_self) demo_kw_get
          (demo_world [Inr resp_invalid, Inr resp_auth])) = Inl AuthError \<and>
   map erase_headers (trace (snd (request_with_logging (get_request demo_platform demo_self) demo_kw_get
          (demo_world [Inr resp_invalid, Inr resp_auth])))) =
     [Request GET ''https://api.owners.kia.com/apigw/v1/rems/stop'' [] PNone] \<and>
   pending (snd (request_with_logging (get_request demo_platform demo_self) demo_kw_get
          (demo_world [Inr resp_invalid, Inr resp_auth]))) = [Inr resp_auth] \<and>
   fst (get_request_with_logging_and_active_session demo_platform demo_self demo_kw_get
          (demo_world [Inr resp_busy, Inr resp_auth])) = Inl RequestException \<and>
   map erase_headers (trace (snd (get_request_with_logging_and_active_session demo_platform demo_self demo_kw_get
          (demo_world [Inr resp_busy, Inr resp_auth])))) =
     [Request GET ''https://api.owners.kia.com/apigw/v1/rems/stop'' [] PNone, LogError] \<and>
   pending (snd (get_request_with_logging_and_active_session demo_platform demo_self demo_kw_get
          (demo_world [Inr resp_busy, Inr resp_auth]))) = [Inr resp_auth]"
proof -
  define G where "G = get_request demo_platform demo_self"
  define W where "W r = (demo_world [Inr r, Inr resp_auth])
     \<lparr>trace := [Request GET ''https://api.owners.kia.com/apigw/v1/rems/stop''
                  (authed_api_headers demo_platform demo_self 0 (demo_world [Inr r, Inr resp_auth])) PNone],
      pending := [Inr resp_auth]\<rparr>" for r
  have url: "kw_url demo_kw_get = Some ''https://api.owners.kia.com/apigw/v1/rems/stop''"
    by (simp add: demo_kw_get_def)
  have raw: "G demo_kw_get (demo_world [Inr r, Inr resp_auth]) = (Inr r, W r)" for r
    by (simp add: G_def W_def get_request_def demo_kw_get_def requests_send_def demo_world_def)
  have tr: "map erase_headers (trace (W r)) = [Request GET ''https://api.owners.kia.com/apigw/v1/rems/stop'' [] PNone]"
    "map erase_headers (trace ((W r)\<lparr>trace := trace (W r) @ [LogError]\<rparr>)) = [Request GET ''https://api.owners.kia.com/apigw/v1/rems/stop'' [] PNone, LogError]"
    "pending (W r) = [Inr resp_auth]"
    "pending ((W r)\<lparr>trace := trace (W r) @ [LogError]\<rparr>) = [Inr resp_auth]" for r
    by (simp_all add: W_def erase_headers_def)
  have j0: "resp_json (resp_status_only 0) = Some (PDict [(''status'', PDict [(''statusCode'', PInt 0)])])"
    and j2: "resp_json (resp_status_only 2) = Some (PDict [(''status'', PDict [(''statusCode'', PInt 2)])])"
    and ji: "resp_json resp_invalid = Some (PDict [(''status'', status_json 1 1 1003)])"
    and jb: "resp_json resp_busy = Some (PDict [(''status'', status_json 1 1 1005)])"
    by (simp_all add: resp_status_only_def resp_invalid_def resp_busy_def)
  have s0: "status_field (PDict [(''status'', PDict [(''statusCode'', PInt 0)])]) ''statusCode'' = Inr (PInt 0)"
    and s2: "status_field (PDict [(''status'', PDict [(''statusCode'', PInt 2)])]) ''statusCode'' = Inr (PInt 2)"
    and si: "status_field (PDict [(''status'', status_json 1 1 1003)]) ''statusCode'' = Inr (PInt 1)"
      "status_field (PDict [(''status'', status_json 1 1 1003)]) ''errorType'' = Inr (PInt 1)"
      "status_field (PDict [(''status'', status_json 1 1 1003)]) ''errorCode'' = Inr (PInt 1003)"
    and sb: "status_field (PDict [(''status'', status_json 1 1 1005)]) ''statusCode'' = Inr (PInt 1)"
      "status_field (PDict [(''status'', status_json 1 1 1005)]) ''errorType'' = Inr (PInt 1)"
      "status_field (PDict [(''status'', status_json 1 1 1005)]) ''errorCode'' = Inr (PInt 1005)"
    by (simp_all add: status_field_def status_json_def)
  from logging_classification [where func = G and lg = "login demo_platform demo_self",
      OF url raw [of "resp_status_only 0"] j0 s0]
  have a: "request_with_logging G demo_kw_get (demo_world [Inr (resp_status_only 0), Inr resp_auth]) =
             (Inr (resp_status_only 0), W (resp_status_only 0))"
    by simp
  from logging_classification [where func = G and lg = "login demo_platform demo_self",
      OF url raw [of "resp_status_only 2"] j2 s2]
  have b: "request_with_active_session (login demo_platform demo_self) (request_with_logging G) demo_kw_get
             (demo_world [Inr (resp_status_only 2), Inr resp_auth]) =
             (Inl RequestException,
              (W (resp_status_only 2))\<lparr>trace := trace (W (resp_status_only 2)) @ [LogError]\<rparr>)"
    by simp
  from logging_classification [where func = G and lg = "login demo_platform demo_self",
      OF url raw [of "resp_invalid"] ji si(1)] si(2,3)
  have c: "request_with_logging G demo_kw_get (demo_world [Inr resp_invalid, Inr resp_auth]) =
             (Inl AuthError, W resp_invalid)"
    by simp
  from logging_classification [where func = G and lg = "login demo_platform demo_self",
      OF url raw [of "resp_busy"] jb sb(1)] sb(2,3)
  have d: "request_with_active_session (login demo_platform demo_self) (request_with_logging G) demo_kw_get
             (demo_world [Inr resp_busy, Inr resp_auth]) =
             (Inl RequestException, (W resp_busy)\<lparr>trace := trace (W resp_busy) @ [LogError]\<rparr>)"
    by simp
  from a b c d show ?thesis
    unfolding get_request_with_logging_and_active_session_def G_def [symmetric]
    by (simp only: fst_conv snd_conv tr world.simps simp_thms)
qed

text \<open>What one request, one login and one logged call do to the world.\<close>

lemma attempts_append [simp]: "attempts u (a @ b) = attempts u a + attempts u b"
  by (simp add: attempts_def)

lemma attempts_simps [simp]:
  "attempts u [] = 0"
  "attempts u (Request m v h b # es) = (if v = u then 1 else 0) + attempts u es"
  "attempts u (Sleep n # es) = attempts u es"
  "attempts u (LogError # es) = attempts u es"
  by (simp_all add: attempts_def)

lemma requests_send_effect:
  assumes "requests_send m u h b w = (r, w')"
  shows "trace w' = trace w @ [Request m u h b]" "tokens w' = tokens w" "clock w' = clock w"
    "pending w' = tl (pending w)"
  using assms by (auto simp: requests_send_def Let_def split: list.splits)

lemma login_effect:
  assumes "login pf self w = (r, w')"
  shows "\<exists>es. trace w' = trace w @ es \<and> attempts (API_URL self @ ''prof/authUser'') es = 1 \<and>
              (\<forall>u. u \<noteq> API_URL self @ ''prof/authUser'' \<longrightarrow> u \<noteq> API_URL self @ ''ownr/gvl'' \<longrightarrow> attempts u es = 0)"
    and "tokens w' = tokens w"
  using assms
  by (auto simp: login_def requests_send_def Let_def split: list.splits sum.splits option.splits if_splits)

lemma logging_effect:
  assumes "request_with_logging raw kw w = (r, w')"
      and "raw = post_request pf self \<or> raw = get_request pf self"
      and "kw_url kw = Some url"
  shows "\<exists>es. trace w' = trace w @ es \<and> attempts url es \<le> 1 \<and> (\<forall>u. u \<noteq> url \<longrightarrow> attempts u es = 0)"
    and "tokens w' = tokens w"
  using assms
  by (auto simp: request_with_logging_def post_request_def get_request_def requests_send_def Let_def log_error_def
      split: list.splits sum.splits option.splits if_splits bool.splits prod.splits)

lemma rewrite_vinKey_url: "rewrite_vinKey kw v = Inr kw' \<Longrightarrow> kw_url kw' = kw_url kw"
  by (auto simp: rewrite_vinKey_def ebind_def split: option.splits pyval.splits sum.splits if_splits)

text \<open>The guard sends at most two requests to the URL of the call and logs in at most
  once.\<close>

lemma guard_bound:
  assumes raw: "raw = post_request pf self \<or> raw = get_request pf self"
      and url: "kw_url kw = Some url"
      and ne: "url \<noteq> API_URL self @ ''prof/authUser''" "url \<noteq> API_URL self @ ''ownr/gvl''"
      and run: "request_with_active_session (login pf self) (request_with_logging raw) kw w = (r, w')"
  shows "\<exists>es. trace w' = trace w @ es \<and> attempts url es \<le> 2 \<and>
              attempts (API_URL self @ ''prof/authUser'') es \<le> 1 \<and>
              (attempts url es = 2 \<longrightarrow> attempts (API_URL self @ ''prof/authUser'') es = 1)"
proof -
  let ?auth = "API_URL self @ ''prof/authUser''"
  obtain r1 w1 where first: "request_with_logging raw kw w = (r1, w1)"
    by (cases "request_with_logging raw kw w")
  from logging_effect(1) [OF first raw url] obtain es1 where
    es1: "trace w1 = trace w @ es1" "attempts url es1 \<le> 1" "attempts ?auth es1 = 0"
    using ne by metis
  show ?thesis
  proof (cases "r1 = Inl AuthError")
    case False
    with first have "request_with_active_session (login pf self) (request_with_logging raw) kw w = (r1, w1)"
      using guard_passes [of "request_with_logging raw" kw w "login pf self"] by simp
    with run es1 show ?thesis by auto
  next
    case True
    note auth = True
    show ?thesis
    proof (cases "kw_token kw")
      case None
      with first auth run have "w' = w1"
        by (simp add: request_with_active_session_def)
      with es1 show ?thesis by auto
    next
      case (Some tk)
      obtain r2 w2 where lg: "login pf self w1 = (r2, w2)"
        by (cases "login pf self w1")
      from login_effect(1) [OF lg] obtain es2 where
        es2: "trace w2 = trace w1 @ es2" "attempts ?auth es2 = 1" "attempts url es2 = 0"
        using ne by metis
      show ?thesis
      proof (cases r2)
        case (Inl e)
        with first auth run Some lg have "w' = w2"
          by (simp add: request_with_active_session_def)
        with es1 es2 show ?thesis by auto
      next
        case (Inr nt)
        define w3 where "w3 = w2\<lparr>tokens := (tokens w2)
                           (tk := (tokens w2 tk)\<lparr>access_token := access_token nt,
                                                 vehicle_regid := vehicle_regid nt,
                                                 valid_until := valid_until nt\<rparr>)\<rparr>"
        have t3: "trace w3 = trace w2" by (simp add: w3_def)
        show ?thesis
        proof (cases "rewrite_vinKey kw (vehicle_regid (tokens w3 tk))")
          case (Inl e)
          with first auth run Some lg Inr have "w' = w3"
            by (simp add: request_with_active_session_def w3_def Let_def)
          with es1 es2 t3 show ?thesis by auto
        next
          case (Inr kw')
          with first auth run Some lg \<open>r2 = Inr nt\<close>
          have retry: "request_with_logging raw kw' w3 = (r, w')"
            by (simp add: request_with_active_session_def w3_def Let_def)
          from rewrite_vinKey_url [OF Inr] url have url': "kw_url kw' = Some url" by simp
          from logging_effect(1) [OF retry raw url'] obtain es3 where
            es3: "trace w' = trace w3 @ es3" "attempts url es3 \<le> 1" "attempts ?auth es3 = 0"
            using ne by metis
          from es1 es2 es3 t3 have "trace w' = trace w @ (es1 @ es2 @ es3)" by simp
          moreover from es1 es2 es3 have "attempts url (es1 @ es2 @ es3) \<le> 2"
            "attempts ?auth (es1 @ es2 @ es3) = 1" by simp_all
          ultimately show ?thesis by (metis le_refl)
        qed
      qed
    qed
  qed
qed

lemma session_invalid_not_ok:
  assumes "session_invalid j = Inr True"
  shows "\<exists>sc. status_field j ''statusCode'' = Inr sc \<and> \<not> py_eq_int sc 0"
  using assms unfolding session_invalid_def ebind_def
  by (cases "status_field j ''statusCode''") (auto split: if_splits elim: py_eq_int.elims)

lemma logging_AuthError_sent:
  assumes "request_with_logging raw kw w = (Inl AuthError, w1)"
      and "raw = post_request pf self \<or> raw = get_request pf self"
      and "kw_url kw = Some url"
  shows "\<exists>m h b. trace w1 = trace w @ [Request m url h b] \<and> raw kw w \<noteq> (Inl TypeError, w)"
  using assms
  by (auto simp: request_with_logging_def post_request_def get_request_def requests_send_def Let_def log_error_def
      split: list.splits sum.splits option.splits if_splits bool.splits prod.splits)

lemma AuthError_binds:
  assumes "request_with_logging raw kw w = (Inl AuthError, w1)"
      and "raw = post_request pf self \<or> raw = get_request pf self"
  shows "binds pf self raw kw"
  using assms
  by (auto simp: binds_def request_with_logging_def post_request_def get_request_def
      split: option.splits)

lemma rewrite_vinKey_binds:
  assumes "rewrite_vinKey kw v = Inr kw'" "binds pf self raw kw"
  shows "binds pf self raw kw'"
  using assms
  by (auto simp: binds_def rewrite_vinKey_def ebind_def split: option.splits pyval.splits sum.splits if_splits)

lemma binds_sends:
  assumes "binds pf self raw kw" "kw_url kw = Some url"
      and "request_with_logging raw kw w = (r, w')"
  shows "\<exists>m h b es. trace w' = trace w @ Request m url h b # es \<and> (\<forall>u. attempts u es = 0)"
  using assms
  by (auto simp: binds_def request_with_logging_def post_request_def get_request_def requests_send_def
      Let_def log_error_def
      split: list.splits sum.splits option.splits if_splits bool.splits prod.splits)

lemma binds_invalid:
  assumes "binds pf self raw kw"
      and "pending w = Inr bad # rest" "session_invalid_response bad"
      and "request_with_logging raw kw w = (r, w')"
  shows "r = Inl AuthError \<and> pending w' = rest"
proof -
  from assms(3) obtain j where j: "resp_json bad = Some j" "session_invalid j = Inr True"
    by (auto simp: session_invalid_response_def split: option.splits)
  from session_invalid_not_ok [OF j(2)] obtain sc where
    sc: "status_field j ''statusCode'' = Inr sc" "\<not> py_eq_int sc 0" by blast
  from assms(1,2,4) j sc show ?thesis
    by (auto simp: binds_def request_with_logging_def post_request_def get_request_def requests_send_def
      Let_def split: option.splits)
qed

lemma guard_retry:
  assumes raw: "raw = post_request pf self \<or> raw = get_request pf self"
      and url: "kw_url kw = Some url"
      and first: "request_with_logging raw kw w = (Inl AuthError, w1)"
      and lg: "login pf self w1 = (Inr nt, w2)"
      and rw: "rewrite_vinKey kw (vehicle_regid nt) = Inr kw'"
      and run: "request_with_active_session (login pf self) (request_with_logging raw) kw w = (r, w')"
  shows "\<exists>tk. kw_token kw = Some tk \<and>
           (r, w') = request_with_logging raw kw'
              (w2\<lparr>tokens := (tokens w2)
                   (tk := (tokens w2 tk)\<lparr>access_token := access_token nt,
                                         vehicle_regid := vehicle_regid nt,
                                         valid_until := valid_until nt\<rparr>)\<rparr>)"
    and "binds pf self raw kw'"
proof -
  from AuthError_binds [OF first raw] have b: "binds pf self raw kw" .
  then obtain tk where tk: "kw_token kw = Some tk" by (auto simp: binds_def)
  from first lg rw run tk show "\<exists>tk. kw_token kw = Some tk \<and>
           (r, w') = request_with_logging raw kw'
              (w2\<lparr>tokens := (tokens w2)
                   (tk := (tokens w2 tk)\<lparr>access_token := access_token nt,
                                         vehicle_regid := vehicle_regid nt,
                                         valid_until := valid_until nt\<rparr>)\<rparr>)"
    by (simp add: request_with_active_session_def Let_def)
  from rewrite_vinKey_binds [OF rw b] show "binds pf self raw kw'" .
qed

text \<open>
  Claim C1. For every call through the session guard (either decorated method, any
  keywords, any world), to a URL other than the two login URLs: the events the call adds
  to the trace hold at most two requests to the call's URL and at most one
  authentication request, and two requests only after a login. When the first attempt
  raises \<^verbatim>\<open>AuthError\<close> and the fresh login succeeds, the call is re-issued exactly once
  (two requests to its URL in all); when the backend answers that retry with
  session-invalid again, the guard returns \<^verbatim>\<open>AuthError\<close> to the caller, having
  consumed nothing more from the network: the original attempt and one retry, then the
  failure.
\<close>

theorem guard_retries_at_most_once:
  assumes raw: "raw = post_request pf self \<or> raw = get_request pf self"
      and url: "kw_url kw = Some url"
      and ne: "url \<noteq> API_URL self @ ''prof/authUser''" "url \<noteq> API_URL self @ ''ownr/gvl''"
      and run: "request_with_active_session (login pf self) (request_with_logging raw) kw w = (r, w')"
  shows "\<exists>es. trace w' = trace w @ es \<and>
           attempts url es \<le> 2 \<and>
           attempts (API_URL self @ ''prof/authUser'') es \<le> 1 \<and>
           (attempts url es = 2 \<longrightarrow> attempts (API_URL self @ ''prof/authUser'') es = 1) \<and>
           (\<forall>w1 nt w2 kw'.
              request_with_logging raw kw w = (Inl AuthError, w1) \<and>
              login pf self w1 = (Inr nt, w2) \<and>
              rewrite_vinKey kw (vehicle_regid nt) = Inr kw' \<longrightarrow>
                attempts url es = 2 \<and>
                (\<exists>tk. kw_token kw = Some tk \<and>
                   (r, w') = request_with_logging raw kw'
                      (w2\<lparr>tokens := (tokens w2)
                           (tk := (tokens w2 tk)\<lparr>access_token := access_token nt,
                                                 vehicle_regid := vehicle_regid nt,
                                                 valid_until := valid_until nt\<rparr>)\<rparr>)) \<and>
                (\<forall>bad rest. pending w2 = Inr bad # rest \<and> session_invalid_response bad \<longrightarrow>
                   r = Inl AuthError \<and> pending w' = rest))"
proof -
  let ?auth = "API_URL self @ ''prof/authUser''"
  from guard_bound [OF raw url ne run] obtain es where
    es: "trace w' = trace w @ es" "attempts url es \<le> 2" "attempts ?auth es \<le> 1"
      "attempts url es = 2 \<longrightarrow> attempts ?auth es = 1" by blast
  have "attempts url es = 2 \<and>
        (\<exists>tk. kw_token kw = Some tk \<and>
                   (r, w') = request_with_logging raw kw'
                      (w2\<lparr>tokens := (tokens w2)
                           (tk := (tokens w2 tk)\<lparr>access_token := access_token nt,
                                                 vehicle_regid := vehicle_regid nt,
                                                 valid_until := valid_until nt\<rparr>)\<rparr>)) \<and>
        (\<forall>bad rest. pending w2 = Inr bad # rest \<and> session_invalid_response bad \<longrightarrow>
                   r = Inl AuthError \<and> pending w' = rest)"
    if first: "request_with_logging raw kw w = (Inl AuthError, w1)"
      and lg: "login pf self w1 = (Inr nt, w2)"
      and rw: "rewrite_vinKey kw (vehicle_regid nt) = Inr kw'"
    for w1 nt w2 kw'
  proof -
    from guard_retry [OF raw url first lg rw run] obtain tk where
      tk: "kw_token kw = Some tk" and
      retry: "request_with_logging raw kw'
              (w2\<lparr>tokens := (tokens w2)
                   (tk := (tokens w2 tk)\<lparr>access_token := access_token nt,
                                         vehicle_regid := vehicle_regid nt,
                                         valid_until := valid_until nt\<rparr>)\<rparr>) = (r, w')"
      and b: "binds pf self raw kw'" by auto
    let ?w3 = "w2\<lparr>tokens := (tokens w2)
                   (tk := (tokens w2 tk)\<lparr>access_token := access_token nt,
                                         vehicle_regid := vehicle_regid nt,
                                         valid_until := valid_until nt\<rparr>)\<rparr>"
    from logging_AuthError_sent [OF first raw url] obtain m1 h1 b1 where
      t1: "trace w1 = trace w @ [Request m1 url h1 b1]" by blast
    from login_effect(1) [OF lg] obtain es2 where
      t2: "trace w2 = trace w1 @ es2" "attempts url es2 = 0" using ne by metis
    from rewrite_vinKey_url [OF rw] url have url': "kw_url kw' = Some url" by simp
    from binds_sends [OF b url' retry] obtain m3 h3 b3 es3 where
      t3: "trace w' = trace ?w3 @ Request m3 url h3 b3 # es3" "attempts url es3 = 0" by blast
    from t1 t2 t3 es(1) have "es = [Request m1 url h1 b1] @ es2 @ Request m3 url h3 b3 # es3"
      by simp
    with t2 t3 have n: "attempts url es = 2" by simp
    have "r = Inl AuthError \<and> pending w' = rest"
      if "pending w2 = Inr bad # rest" "session_invalid_response bad" for bad rest
      using binds_invalid [OF b _ that(2) retry, of rest] that(1) by simp
    with n tk retry show ?thesis by simp
  qed
  with es show ?thesis by blast
qed

lemma demo_API_URL: "API_URL demo_self = ''https://api.owners.kia.com/apigw/v1/''"
  by (simp add: demo_self_def KiaUvoAPIUSA_init_def KiaUvoApiImpl_init_def KiaUvoApiImpl.defs
      KiaUvoAPIUSA.defs Let_def)

lemma resp_invalid_is_session_invalid: "session_invalid_response resp_invalid"
  by (simp add: session_invalid_response_def resp_invalid_def session_invalid_def status_field_def
      status_json_def ebind_def)

theorem guard_retries_at_most_once_witness:
  "fst (post_request_with_logging_and_active_session demo_platform demo_self demo_kw
          (demo_world [Inr resp_invalid, Inr resp_auth, Inr resp_vehicles, Inr resp_invalid, Inr resp_invalid]))
     = Inl AuthError \<and>
   pending (snd (post_request_with_logging_and_active_session demo_platform demo_self demo_kw
          (demo_world [Inr resp_invalid, Inr resp_auth, Inr resp_vehicles, Inr resp_invalid, Inr resp_invalid])))
     = [Inr resp_invalid] \<and>
   attempts ''https://api.owners.kia.com/apigw/v1/rems/rvs''
     (trace (snd (post_request_with_logging_and_active_session demo_platform demo_self demo_kw
          (demo_world [Inr resp_invalid, Inr resp_auth, Inr resp_vehicles, Inr resp_invalid, Inr resp_invalid]))))
     = 2 \<and>
   attempts ''https://api.owners.kia.com/apigw/v1/prof/authUser''
     (trace (snd (post_request_with_logging_and_active_session demo_platform demo_self demo_kw
          (demo_world [Inr resp_invalid, Inr resp_auth, Inr resp_vehicles, Inr resp_invalid, Inr resp_invalid]))))
     = 1"
proof -
  let ?url = "''https://api.owners.kia.com/apigw/v1/rems/rvs''"
  define w where "w = demo_world [Inr resp_invalid, Inr resp_auth, Inr resp_vehicles, Inr resp_invalid, Inr resp_invalid]"
  define raw where "raw = post_request demo_platform demo_self"
  define X where "X = request_with_active_session (login demo_platform demo_self) (request_with_logging raw) demo_kw w"
  define w1 where "w1 = w\<lparr>trace := [Request POST ?url (authed_api_headers demo_platform demo_self 0 w)
                                   (PDict [(''requestType'', PInt 0)])],
                        pending := [Inr resp_auth, Inr resp_vehicles, Inr resp_invalid, Inr resp_invalid]\<rparr>"
  have raw: "raw = post_request demo_platform demo_self \<or> raw = get_request demo_platform demo_self"
    by (simp add: raw_def)
  have url: "kw_url demo_kw = Some ?url" by (simp add: demo_kw_def)
  have ne: "?url \<noteq> API_URL demo_self @ ''prof/authUser''" "?url \<noteq> API_URL demo_self @ ''ownr/gvl''"
    by (simp_all add: demo_API_URL)
  have run: "request_with_active_session (login demo_platform demo_self) (request_with_logging raw) demo_kw w
               = (fst X, snd X)"
    by (simp add: X_def)
  have first: "request_with_logging raw demo_kw w = (Inl AuthError, w1)"
    by (simp add: raw_def w_def w1_def request_with_logging_def post_request_def requests_send_def
        demo_kw_def demo_world_def resp_invalid_def status_field_def session_invalid_def ebind_def
        status_json_def)
  obtain nt w2 where lg: "login demo_platform demo_self w1 = (Inr nt, w2)"
    and nt: "vehicle_regid nt = PStr ''KEY2''"
    and p2: "pending w2 = Inr resp_invalid # [Inr resp_invalid]"
    by (simp add: w1_def w_def login_def requests_send_def demo_world_def resp_auth_def resp_vehicles_def
      ebind_def Token_set_def Token_empty_def Let_def)
  have rw: "rewrite_vinKey demo_kw (vehicle_regid nt) = Inr demo_kw"
    by (simp add: rewrite_vinKey_def demo_kw_def ebind_def)
  from guard_retries_at_most_once [OF raw url ne run] obtain es where
    es: "trace (snd X) = trace w @ es" "attempts ?url es \<le> 2"
      "attempts (API_URL demo_self @ ''prof/authUser'') es \<le> 1"
      "attempts ?url es = 2 \<longrightarrow> attempts (API_URL demo_self @ ''prof/authUser'') es = 1"
    and B: "\<forall>w1 nt w2 kw'.
              request_with_logging raw demo_kw w = (Inl AuthError, w1) \<and>
              login demo_platform demo_self w1 = (Inr nt, w2) \<and>
              rewrite_vinKey demo_kw (vehicle_regid nt) = Inr kw' \<longrightarrow>
                attempts ?url es = 2 \<and>
                (\<exists>tk. kw_token demo_kw = Some tk \<and>
                   (fst X, snd X) = request_with_logging raw kw'
                      (w2\<lparr>tokens := (tokens w2)
                           (tk := (tokens w2 tk)\<lparr>access_token := access_token nt,
                                                 vehicle_regid := vehicle_regid nt,
                                                 valid_until := valid_until nt\<rparr>)\<rparr>)) \<and>
                (\<forall>bad rest. pending w2 = Inr bad # rest \<and> session_invalid_response bad \<longrightarrow>
                   fst X = Inl AuthError \<and> pending (snd X) = rest)"
    by blast
  from B first lg rw have two: "attempts ?url es = 2"
    and C: "\<forall>bad rest. pending w2 = Inr bad # rest \<and> session_invalid_response bad \<longrightarrow>
                   fst X = Inl AuthError \<and> pending (snd X) = rest"
    by blast+
  from C p2 resp_invalid_is_session_invalid have "fst X = Inl AuthError" "pending (snd X) = [Inr resp_invalid]"
    by blast+
  moreover from es two have "attempts ?url (trace (snd X)) = 2"
    "attempts ''https://api.owners.kia.com/apigw/v1/prof/authUser'' (trace (snd X)) = 1"
    by (simp_all add: w_def demo_world_def demo_API_URL)
  ultimately show ?thesis
    by (simp add: X_def raw_def w_def post_request_with_logging_and_active_session_def)
qed

text \<open>Reading a dictionary after an assignment, and the two authorization headers.\<close>

lemma map_of_dict_set: "map_of (dict_set d k v) k' = (if k' = k then Some v else map_of d k')"
  by (induction d) auto

lemma authed_api_headers_sid:
  "map_of (authed_api_headers pf self tk w) ''sid'' = Some (access_token (tokens w tk))"
  "map_of (authed_api_headers pf self tk w) ''vinkey'' = Some (vehicle_regid (tokens w tk))"
  by (simp_all add: authed_api_headers_def Let_def map_of_dict_set)

text \<open>The rewrite of a dictionary body, and what a bound call sends.\<close>

lemma rewrite_vinKey_dict:
  assumes "kw_json_body kw = Some (PDict d)"
  shows "rewrite_vinKey kw regid =
           Inr (if truthy (case map_of d ''vinKey'' of None \<Rightarrow> PNone | Some v \<Rightarrow> v)
                then kw\<lparr>kw_json_body := Some (PDict (dict_set d ''vinKey'' (PList [regid])))\<rparr>
                else kw)"
  using assms by (simp add: rewrite_vinKey_def ebind_def split: option.splits)

lemma post_sends:
  assumes "kw_token kw = Some tk" "kw_url kw = Some url" "kw_json_body kw = Some b" "kw_headers kw = None"
      and "request_with_logging (post_request pf self) kw w = (r, w')"
  shows "\<exists>es. trace w' = trace w @ Request POST url (authed_api_headers pf self tk w) b # es \<and>
              (\<forall>u. attempts u es = 0)"
    and "tokens w' = tokens w"
  using assms
  by (auto simp: request_with_logging_def post_request_def requests_send_def Let_def log_error_def
      split: list.splits sum.splits option.splits if_splits bool.splits prod.splits)

lemma get_sends:
  assumes "kw_token kw = Some tk" "kw_url kw = Some url" "kw_json_body kw = None" "kw_headers kw = None"
      and "request_with_logging (get_request pf self) kw w = (r, w')"
  shows "\<exists>es. trace w' = trace w @ Request GET url (authed_api_headers pf self tk w) PNone # es \<and>
              (\<forall>u. attempts u es = 0)"
  using assms
  by (auto simp: request_with_logging_def get_request_def requests_send_def Let_def log_error_def
      split: list.splits sum.splits option.splits if_splits bool.splits prod.splits)

text \<open>
  Claim C2. When the first attempt of a call through the session guard (either decorated
  method) raises \<^verbatim>\<open>AuthError\<close> and the fresh login returns the Token \<open>nt\<close>, the guard
  overwrites, in the Token object the call was given (the same address of the store, so
  every holder of the reference sees it), the access token, the vehicle registration
  identifier and the validity timestamp with those of \<open>nt\<close>; the other fields of that
  Token and every other Token are as before. The call is sent again after the login, with
  the \<^verbatim>\<open>sid\<close> and \<^verbatim>\<open>vinkey\<close> headers of the refreshed Token. When the original body is
  a dictionary, the retried POST carries that dictionary, in which a \<^verbatim>\<open>vinKey\<close> field
  that holds a registration reference (any non-empty list, and any other value that
  Python takes as true) is rewritten to the one-element list of the refreshed
  registration identifier and every other field is unchanged: the retry uses the
  corrected body, not the stale one. A body without the field, or whose field is empty,
  holds no reference and is sent again as it is. A GET call has no body and is sent again
  with the refreshed headers.
\<close>

theorem guard_refreshes_token_and_body:
  assumes raw: "raw = post_request pf self \<or> raw = get_request pf self"
      and url: "kw_url kw = Some url"
      and first: "request_with_logging raw kw w = (Inl AuthError, w1)"
      and lg: "login pf self w1 = (Inr nt, w2)"
      and run: "request_with_active_session (login pf self) (request_with_logging raw) kw w = (r, w')"
  shows "\<exists>tk. kw_token kw = Some tk \<and>
           tokens w' = (tokens w)
             (tk := (tokens w tk)\<lparr>access_token := access_token nt,
                                  vehicle_regid := vehicle_regid nt,
                                  valid_until := valid_until nt\<rparr>) \<and>
           (\<forall>d. kw_json_body kw = Some (PDict d) \<longrightarrow>
              (\<exists>hdrs d' es.
                 trace w' = trace w2 @ Request POST url hdrs (PDict d') # es \<and>
                 (\<forall>u. attempts u es = 0) \<and>
                 map_of hdrs ''sid'' = Some (access_token nt) \<and>
                 map_of hdrs ''vinkey'' = Some (vehicle_regid nt) \<and>
                 d' = (if truthy (case map_of d ''vinKey'' of None \<Rightarrow> PNone | Some v \<Rightarrow> v)
                       then dict_set d ''vinKey'' (PList [vehicle_regid nt]) else d) \<and>
                 (\<forall>v. map_of d ''vinKey'' = Some v \<and> truthy v \<longrightarrow>
                      map_of d' ''vinKey'' = Some (PList [vehicle_regid nt]) \<and>
                      (\<forall>k. k \<noteq> ''vinKey'' \<longrightarrow> map_of d' k = map_of d k)) \<and>
                 (\<forall>x xs. map_of d ''vinKey'' = Some (PList (x # xs)) \<longrightarrow>
                      map_of d' ''vinKey'' = Some (PList [vehicle_regid nt])))) \<and>
           (kw_json_body kw = None \<longrightarrow>
              (\<exists>hdrs es.
                 trace w' = trace w2 @ Request GET url hdrs PNone # es \<and>
                 (\<forall>u. attempts u es = 0) \<and>
                 map_of hdrs ''sid'' = Some (access_token nt) \<and>
                 map_of hdrs ''vinkey'' = Some (vehicle_regid nt)))"
proof -
  from AuthError_binds [OF first raw] have b: "binds pf self raw kw" .
  then obtain tk where tk: "kw_token kw = Some tk" and hd: "kw_headers kw = None"
    by (auto simp: binds_def)
  let ?w3 = "w2\<lparr>tokens := (tokens w2)
                   (tk := (tokens w2 tk)\<lparr>access_token := access_token nt,
                                         vehicle_regid := vehicle_regid nt,
                                         valid_until := valid_until nt\<rparr>)\<rparr>"
  from login_effect(2) [OF lg] logging_effect(2) [OF first raw url] have t2: "tokens w2 = tokens w"
    by simp
  have h: "map_of (authed_api_headers pf self tk ?w3) ''sid'' = Some (access_token nt)"
    "map_of (authed_api_headers pf self tk ?w3) ''vinkey'' = Some (vehicle_regid nt)"
    by (simp_all add: authed_api_headers_sid)
  have "tokens w' = tokens ?w3"
  proof (cases "rewrite_vinKey kw (vehicle_regid nt)")
    case (Inl e)
    with first lg run tk have "w' = ?w3"
      by (simp add: request_with_active_session_def Let_def)
    then show ?thesis by simp
  next
    case (Inr kw')
    from guard_retry(1) [OF raw url first lg Inr run] tk
    have retry: "request_with_logging raw kw' ?w3 = (r, w')" by simp
    from rewrite_vinKey_url [OF Inr] url have "kw_url kw' = Some url" by simp
    from logging_effect(2) [OF retry raw this] show ?thesis .
  qed
  with t2 have A: "tokens w' = (tokens w)
             (tk := (tokens w tk)\<lparr>access_token := access_token nt,
                                  vehicle_regid := vehicle_regid nt,
                                  valid_until := valid_until nt\<rparr>)" by simp
  have B: "\<exists>hdrs d' es.
                 trace w' = trace w2 @ Request POST url hdrs (PDict d') # es \<and>
                 (\<forall>u. attempts u es = 0) \<and>
                 map_of hdrs ''sid'' = Some (access_token nt) \<and>
                 map_of hdrs ''vinkey'' = Some (vehicle_regid nt) \<and>
                 d' = (if truthy (case map_of d ''vinKey'' of None \<Rightarrow> PNone | Some v \<Rightarrow> v)
                       then dict_set d ''vinKey'' (PList [vehicle_regid nt]) else d) \<and>
                 (\<forall>v. map_of d ''vinKey'' = Some v \<and> truthy v \<longrightarrow>
                      map_of d' ''vinKey'' = Some (PList [vehicle_regid nt]) \<and>
                      (\<forall>k. k \<noteq> ''vinKey'' \<longrightarrow> map_of d' k = map_of d k)) \<and>
                 (\<forall>x xs. map_of d ''vinKey'' = Some (PList (x # xs)) \<longrightarrow>
                      map_of d' ''vinKey'' = Some (PList [vehicle_regid nt]))"
    if body: "kw_json_body kw = Some (PDict d)" for d
  proof -
    let ?t = "truthy (case map_of d ''vinKey'' of None \<Rightarrow> PNone | Some v \<Rightarrow> v)"
    let ?d' = "if ?t then dict_set d ''vinKey'' (PList [vehicle_regid nt]) else d"
    let ?kw' = "if ?t then kw\<lparr>kw_json_body := Some (PDict (dict_set d ''vinKey'' (PList [vehicle_regid nt])))\<rparr>
                else kw"
    from b body have rp: "raw = post_request pf self" by (auto simp: binds_def)
    have rw: "rewrite_vinKey kw (vehicle_regid nt) = Inr ?kw'"
      by (rule rewrite_vinKey_dict [OF body])
    from guard_retry(1) [OF raw url first lg rw run] tk rp
    have retry: "request_with_logging (post_request pf self) ?kw' ?w3 = (r, w')" by simp
    have kw': "kw_token ?kw' = Some tk" "kw_url ?kw' = Some url" "kw_json_body ?kw' = Some (PDict ?d')"
      "kw_headers ?kw' = None"
      using tk url body hd by auto
    from post_sends(1) [OF kw' retry] obtain es where
      es: "trace w' = trace ?w3 @ Request POST url (authed_api_headers pf self tk ?w3) (PDict ?d') # es"
        "\<forall>u. attempts u es = 0" by blast
    from es have t: "trace w' = trace w2 @ Request POST url (authed_api_headers pf self tk ?w3) (PDict ?d') # es"
      by simp
    have v: "\<forall>v. map_of d ''vinKey'' = Some v \<and> truthy v \<longrightarrow>
                      map_of ?d' ''vinKey'' = Some (PList [vehicle_regid nt]) \<and>
                      (\<forall>k. k \<noteq> ''vinKey'' \<longrightarrow> map_of ?d' k = map_of d k)"
      by (auto simp: map_of_dict_set)
    have l: "\<forall>x xs. map_of d ''vinKey'' = Some (PList (x # xs)) \<longrightarrow>
                      map_of ?d' ''vinKey'' = Some (PList [vehicle_regid nt])"
      by (auto simp: map_of_dict_set)
    from t es(2) h v l show ?thesis by blast
  qed
  have C: "\<exists>hdrs es.
                 trace w' = trace w2 @ Request GET url hdrs PNone # es \<and>
                 (\<forall>u. attempts u es = 0) \<and>
                 map_of hdrs ''sid'' = Some (access_token nt) \<and>
                 map_of hdrs ''vinkey'' = Some (vehicle_regid nt)"
    if body: "kw_json_body kw = None"
  proof -
    from b body have rg: "raw = get_request pf self" by (auto simp: binds_def)
    have rw: "rewrite_vinKey kw (vehicle_regid nt) = Inr kw"
      using body by (simp add: rewrite_vinKey_def)
    from guard_retry(1) [OF raw url first lg rw run] tk rg
    have retry: "request_with_logging (get_request pf self) kw ?w3 = (r, w')" by simp
    from get_sends [OF tk url body hd retry] obtain es where
      es: "trace w' = trace ?w3 @ Request GET url (authed_api_headers pf self tk ?w3) PNone # es"
        "\<forall>u. attempts u es = 0" by blast
    from es have t: "trace w' = trace w2 @ Request GET url (authed_api_headers pf self tk ?w3) PNone # es"
      by simp
    from t es(2) h show ?thesis by blast
  qed
  show ?thesis
    apply (rule exI [of _ tk])
    apply (intro conjI allI impI)
       apply (rule tk)
      apply (rule A)
     apply (rule B, assumption)
    apply (rule C, assumption)
    done
qed

lemma sent_to_simps [simp]:
  "sent_to u [] = []"
  "sent_to u (Request m v h b # es) = (if v = u then [b] else []) @ sent_to u es"
  "sent_to u (Sleep n # es) = sent_to u es"
  "sent_to u (LogError # es) = sent_to u es"
  "sent_to u (es @ es') = sent_to u es @ sent_to u es'"
  by (simp_all add: sent_to_def)

lemma attempts_sent_to: "attempts u es = length (sent_to u es)"
  by (induction es) (auto simp: attempts_def sent_to_def split: event.splits)

lemma no_attempts_sent_to: "\<forall>u. attempts u es = 0 \<Longrightarrow> sent_to u es = []"
  by (simp add: attempts_sent_to)

lemma headers_to_simps [simp]:
  "headers_to u [] = []"
  "headers_to u (Request m v h b # es) = (if v = u then [h] else []) @ headers_to u es"
  "headers_to u (Sleep n # es) = headers_to u es"
  "headers_to u (LogError # es) = headers_to u es"
  "headers_to u (es @ es') = headers_to u es @ headers_to u es'"
  by (simp_all add: headers_to_def)

lemma attempts_headers_to: "attempts u es = length (headers_to u es)"
  by (induction es) (auto simp: attempts_def headers_to_def split: event.splits)

lemma no_attempts_headers_to: "\<forall>u. attempts u es = 0 \<Longrightarrow> headers_to u es = []"
  by (simp add: attempts_headers_to)

theorem guard_refreshes_token_and_body_witness:
  "sent_to ''https://api.owners.kia.com/apigw/v1/cmm/gvi''
     (trace (snd (post_request_with_logging_and_active_session demo_platform demo_self demo_kw_vinKey
          (demo_world [Inr resp_invalid, Inr resp_auth, Inr resp_vehicles, Inr resp_ok]))))
     = [PDict [(''vinKey'', PList [PStr ''KEY1'']), (''vehicleInfoReq'', PStr ''1'')],
        PDict [(''vinKey'', PList [PStr ''KEY2'']), (''vehicleInfoReq'', PStr ''1'')]] \<and>
   map (\<lambda>h. (map_of h ''sid'', map_of h ''vinkey''))
     (headers_to ''https://api.owners.kia.com/apigw/v1/cmm/gvi''
       (trace (snd (post_request_with_logging_and_active_session demo_platform demo_self demo_kw_vinKey
          (demo_world [Inr resp_invalid, Inr resp_auth, Inr resp_vehicles, Inr resp_ok])))))
     = [(Some (PStr ''SID1''), Some (PStr ''KEY1'')), (Some (PStr ''SID2''), Some (PStr ''KEY2''))] \<and>
   tokens (snd (post_request_with_logging_and_active_session demo_platform demo_self demo_kw_vinKey
          (demo_world [Inr resp_invalid, Inr resp_auth, Inr resp_vehicles, Inr resp_ok]))) 0
     = demo_token\<lparr>access_token := PStr ''SID2'', vehicle_regid := PStr ''KEY2'', valid_until := PStr ''4600''\<rparr> \<and>
   map (\<lambda>h. (map_of h ''sid'', map_of h ''vinkey''))
     (headers_to ''https://api.owners.kia.com/apigw/v1/rems/stop''
       (trace (snd (get_request_with_logging_and_active_session demo_platform demo_self demo_kw_get
          (demo_world [Inr resp_invalid, Inr resp_auth, Inr resp_vehicles, Inr resp_ok])))))
     = [(Some (PStr ''SID1''), Some (PStr ''KEY1'')), (Some (PStr ''SID2''), Some (PStr ''KEY2''))] \<and>
   tokens (snd (get_request_with_logging_and_active_session demo_platform demo_self demo_kw_get
          (demo_world [Inr resp_invalid, Inr resp_auth, Inr resp_vehicles, Inr resp_ok]))) 0
     = demo_token\<lparr>access_token := PStr ''SID2'', vehicle_regid := PStr ''KEY2'', valid_until := PStr ''4600''\<rparr>"
proof -
  let ?url = "''https://api.owners.kia.com/apigw/v1/cmm/gvi''"
  let ?stop = "''https://api.owners.kia.com/apigw/v1/rems/stop''"
  let ?d = "[(''vinKey'', PList [PStr ''KEY1'']), (''vehicleInfoReq'', PStr ''1'')]"
  let ?obs = "\<lambda>h. (map_of h ''sid'', map_of h ''vinkey'')"
  define w where "w = demo_world [Inr resp_invalid, Inr resp_auth, Inr resp_vehicles, Inr resp_ok]"
  define P where "P = post_request demo_platform demo_self"
  define G where "G = get_request demo_platform demo_self"
  define X where "X = request_with_active_session (login demo_platform demo_self) (request_with_logging P)
                        demo_kw_vinKey w"
  define Y where "Y = request_with_active_session (login demo_platform demo_self) (request_with_logging G)
                        demo_kw_get w"
  define w1 where "w1 = w\<lparr>trace := [Request POST ?url (authed_api_headers demo_platform demo_self 0 w) (PDict ?d)],
                        pending := [Inr resp_auth, Inr resp_vehicles, Inr resp_ok]\<rparr>"
  define v1 where "v1 = w\<lparr>trace := [Request GET ?stop (authed_api_headers demo_platform demo_self 0 w) PNone],
                        pending := [Inr resp_auth, Inr resp_vehicles, Inr resp_ok]\<rparr>"
  have tw: "tokens w 0 = demo_token" by (simp add: w_def demo_world_def)
  have old: "?obs (authed_api_headers demo_platform demo_self 0 w) = (Some (PStr ''SID1''), Some (PStr ''KEY1''))"
    by (simp add: authed_api_headers_sid tw demo_token_def Token_set_def Token_empty_def)
  have rawP: "P = post_request demo_platform demo_self \<or> P = get_request demo_platform demo_self"
    and rawG: "G = post_request demo_platform demo_self \<or> G = get_request demo_platform demo_self"
    by (simp_all add: P_def G_def)
  have kwP: "kw_token demo_kw_vinKey = Some 0" "kw_url demo_kw_vinKey = Some ?url"
    "kw_json_body demo_kw_vinKey = Some (PDict ?d)"
    by (simp_all add: demo_kw_vinKey_def)
  have kwG: "kw_token demo_kw_get = Some 0" "kw_url demo_kw_get = Some ?stop" "kw_json_body demo_kw_get = None"
    by (simp_all add: demo_kw_get_def)
  have runP: "request_with_active_session (login demo_platform demo_self) (request_with_logging P)
                demo_kw_vinKey w = (fst X, snd X)"
    and runG: "request_with_active_session (login demo_platform demo_self) (request_with_logging G)
                demo_kw_get w = (fst Y, snd Y)"
    by (simp_all add: X_def Y_def)
  have firstP: "request_with_logging P demo_kw_vinKey w = (Inl AuthError, w1)"
    by (simp add: P_def w_def w1_def request_with_logging_def post_request_def requests_send_def
        demo_kw_vinKey_def demo_world_def resp_invalid_def status_field_def session_invalid_def ebind_def
        status_json_def)
  have firstG: "request_with_logging G demo_kw_get w = (Inl AuthError, v1)"
    by (simp add: G_def w_def v1_def request_with_logging_def get_request_def requests_send_def
        demo_kw_get_def demo_world_def resp_invalid_def status_field_def session_invalid_def ebind_def
        status_json_def)
  obtain nt w2 where lgP: "login demo_platform demo_self w1 = (Inr nt, w2)"
    and nt: "vehicle_regid nt = PStr ''KEY2''" "access_token nt = PStr ''SID2''" "valid_until nt = PStr ''4600''"
    and t2: "trace w2 = trace w1 @
               [Request POST (API_URL demo_self @ ''prof/authUser'') (api_headers demo_platform demo_self w1)
                  (PDict [(''deviceKey'', PStr []), (''deviceType'', PInt 2),
                     (''userCredential'', PDict [(''userId'', username demo_self), (''password'', password demo_self)])]),
                Request GET (API_URL demo_self @ ''ownr/gvl'')
                  (dict_set (api_headers demo_platform demo_self w1) ''sid'' (PStr ''SID2'')) PNone]"
    by (simp add: w1_def w_def login_def requests_send_def demo_world_def resp_auth_def resp_vehicles_def
      ebind_def Token_set_def Token_empty_def Let_def demo_platform_def str_int_def api_headers_def)
  obtain mt v2 where lgG: "login demo_platform demo_self v1 = (Inr mt, v2)"
    and mt: "vehicle_regid mt = PStr ''KEY2''" "access_token mt = PStr ''SID2''" "valid_until mt = PStr ''4600''"
    and u2: "trace v2 = trace v1 @
               [Request POST (API_URL demo_self @ ''prof/authUser'') (api_headers demo_platform demo_self v1)
                  (PDict [(''deviceKey'', PStr []), (''deviceType'', PInt 2),
                     (''userCredential'', PDict [(''userId'', username demo_self), (''password'', password demo_self)])]),
                Request GET (API_URL demo_self @ ''ownr/gvl'')
                  (dict_set (api_headers demo_platform demo_self v1) ''sid'' (PStr ''SID2'')) PNone]"
    by (simp add: v1_def w_def login_def requests_send_def demo_world_def resp_auth_def resp_vehicles_def
      ebind_def Token_set_def Token_empty_def Let_def demo_platform_def str_int_def api_headers_def)
  have s2: "sent_to ?url (trace w2) = [PDict ?d]"
    "map ?obs (headers_to ?url (trace w2)) = [(Some (PStr ''SID1''), Some (PStr ''KEY1''))]"
    "map ?obs (headers_to ?stop (trace v2)) = [(Some (PStr ''SID1''), Some (PStr ''KEY1''))]"
    by (simp_all add: t2 u2 w1_def v1_def demo_API_URL old)
  from guard_refreshes_token_and_body [where raw = P, OF rawP kwP(2) firstP lgP runP] kwP(1,3)
  obtain hdrs d' es where
    A: "tokens (snd X) = (tokens w)
           (0 := (tokens w 0)\<lparr>access_token := access_token nt,
                                vehicle_regid := vehicle_regid nt,
                                valid_until := valid_until nt\<rparr>)"
    and B: "trace (snd X) = trace w2 @ Request POST ?url hdrs (PDict d') # es" "\<forall>u. attempts u es = 0"
      "map_of hdrs ''sid'' = Some (access_token nt)" "map_of hdrs ''vinkey'' = Some (vehicle_regid nt)"
      "d' = (if truthy (case map_of ?d ''vinKey'' of None \<Rightarrow> PNone | Some v \<Rightarrow> v)
                  then dict_set ?d ''vinKey'' (PList [vehicle_regid nt]) else ?d)"
    by auto
  from guard_refreshes_token_and_body [where raw = G, OF rawG kwG(2) firstG lgG runG] kwG(1,3)
  obtain hdrs' es' where
    C: "tokens (snd Y) = (tokens w)
           (0 := (tokens w 0)\<lparr>access_token := access_token mt,
                                vehicle_regid := vehicle_regid mt,
                                valid_until := valid_until mt\<rparr>)"
    and D: "trace (snd Y) = trace v2 @ Request GET ?stop hdrs' PNone # es'" "\<forall>u. attempts u es' = 0"
      "map_of hdrs' ''sid'' = Some (access_token mt)" "map_of hdrs' ''vinkey'' = Some (vehicle_regid mt)"
    by auto
  from B(5) nt have d': "d' = [(''vinKey'', PList [PStr ''KEY2'']), (''vehicleInfoReq'', PStr ''1'')]"
    by simp
  from B(1) s2(1) d' no_attempts_sent_to [OF B(2)]
  have r1: "sent_to ?url (trace (snd X)) =
              [PDict ?d, PDict [(''vinKey'', PList [PStr ''KEY2'']), (''vehicleInfoReq'', PStr ''1'')]]"
    by simp
  from B(1,3,4) s2(2) nt no_attempts_headers_to [OF B(2)]
  have r2: "map ?obs (headers_to ?url (trace (snd X))) =
              [(Some (PStr ''SID1''), Some (PStr ''KEY1'')), (Some (PStr ''SID2''), Some (PStr ''KEY2''))]"
    by simp
  from A nt tw have r3: "tokens (snd X) 0
     = demo_token\<lparr>access_token := PStr ''SID2'', vehicle_regid := PStr ''KEY2'', valid_until := PStr ''4600''\<rparr>"
    by simp
  from D(1,3,4) s2(3) mt no_attempts_headers_to [OF D(2)]
  have r4: "map ?obs (headers_to ?stop (trace (snd Y))) =
              [(Some (PStr ''SID1''), Some (PStr ''KEY1'')), (Some (PStr ''SID2''), Some (PStr ''KEY2''))]"
    by simp
  from C mt tw have r5: "tokens (snd Y) 0
     = demo_token\<lparr>access_token := PStr ''SID2'', vehicle_regid := PStr ''KEY2'', valid_until := PStr ''4600''\<rparr>"
    by simp
  from r1 r2 r3 r4 r5 show ?thesis
    unfolding X_def Y_def P_def G_def w_def post_request_with_logging_and_active_session_def
      get_request_with_logging_and_active_session_def
    by simp
qed

section \<open>Properties: the action poller\<close>

text \<open>One poll whose answer is a successful one: the guarded call returns it after one
  request.\<close>

lemma poll_request_ok:
  assumes "pending w = Inr r # rest" "sub_checks r = Some vs"
  shows "post_request_with_logging_and_active_session pf self
           \<lparr>kw_token = Some tk, kw_url = Some url, kw_json_body = Some body, kw_headers = None\<rparr> w =
         (Inr r, w\<lparr>trace := trace w @ [Request POST url (authed_api_headers pf self tk w) body],
                   pending := rest\<rparr>)"
  using assms
  by (auto simp: post_request_with_logging_and_active_session_def request_with_active_session_def
      request_with_logging_def post_request_def requests_send_def sub_checks_def
      split: option.splits sum.splits if_splits)

lemma sub_checks_payload:
  assumes "sub_checks r = Some vs"
  shows "\<exists>j. resp_json r = Some j \<and> ebind (getitem j ''payload'') py_values = Inr vs"
  using assms by (auto simp: sub_checks_def split: option.splits sum.splits if_splits)

text \<open>One turn of the loop: it goes on after an answer with a non-zero sub-check and
  returns after an answer whose sub-checks are all zero.\<close>

lemma poll_loop_busy:
  assumes "pending w = Inr r # rest" "sub_checks r = Some vs" "\<not> list_all (\<lambda>v. py_eq_int v 0) vs"
  shows "poll_loop pf self tk xid w =
           poll_loop pf self tk xid
             (w\<lparr>trace := trace w @ [Sleep 10, Request POST (API_URL self @ ''cmm/gts'')
                     (authed_api_headers pf self tk (time_sleep 10 w)) (PDict [(''xid'', PStr xid)])],
                clock := clock w + 10, pending := rest\<rparr>)"
proof -
  from sub_checks_payload [OF assms(2)] obtain j where
    j: "resp_json r = Some j" "ebind (getitem j ''payload'') py_values = Inr vs" by blast
  have p: "pending (time_sleep 10 w) = Inr r # rest" using assms(1) by (simp add: time_sleep_def)
  show ?thesis
    apply (subst poll_loop.simps)
    apply (simp add: Let_def poll_request_ok [OF p assms(2)] j assms(3))
    apply (rule arg_cong [where f = "poll_loop pf self tk xid"])
    apply (simp add: time_sleep_def)
    done
qed

lemma poll_loop_final:
  assumes "pending w = Inr r # rest" "sub_checks r = Some vs" "list_all (\<lambda>v. py_eq_int v 0) vs"
  shows "poll_loop pf self tk xid w =
           Some (Inr True,
             w\<lparr>trace := trace w @ [Sleep 10, Request POST (API_URL self @ ''cmm/gts'')
                     (authed_api_headers pf self tk (time_sleep 10 w)) (PDict [(''xid'', PStr xid)])],
                clock := clock w + 10, pending := rest\<rparr>)"
proof -
  from sub_checks_payload [OF assms(2)] obtain j where
    j: "resp_json r = Some j" "ebind (getitem j ''payload'') py_values = Inr vs" by blast
  have p: "pending (time_sleep 10 w) = Inr r # rest" using assms(1) by (simp add: time_sleep_def)
  show ?thesis
    apply (subst poll_loop.simps)
    apply (simp add: Let_def poll_request_ok [OF p assms(2)] j assms(3))
    apply (simp add: time_sleep_def)
    done
qed

lemma poll_loop_completes:
  assumes "pending w = map Inr (busy @ [final]) @ rest"
      and "\<forall>r \<in> set busy. \<exists>vs. sub_checks r = Some vs \<and> \<not> list_all (\<lambda>v. py_eq_int v 0) vs"
      and "\<exists>vs. sub_checks final = Some vs \<and> list_all (\<lambda>v. py_eq_int v 0) vs"
  shows "\<exists>w' es. poll_loop pf self tk xid w = Some (Inr True, w') \<and> pending w' = rest \<and>
           trace w' = trace w @ es \<and>
           map erase_headers es =
             concat (replicate (length busy + 1)
               [Sleep 10, Request POST (API_URL self @ ''cmm/gts'') [] (PDict [(''xid'', PStr xid)])]) \<and>
           clock w' = clock w + 10 * (int (length busy) + 1) \<and> tokens w' = tokens w"
  using assms
proof (induction busy arbitrary: w)
  case Nil
  then obtain vs where vs: "sub_checks final = Some vs" "list_all (\<lambda>v. py_eq_int v 0) vs" by blast
  from Nil have p: "pending w = Inr final # rest" by simp
  show ?case
    by (simp add: poll_loop_final [OF p vs] erase_headers_def)
next
  case (Cons r busy)
  then obtain vs where vs: "sub_checks r = Some vs" "\<not> list_all (\<lambda>v. py_eq_int v 0) vs" by auto
  from Cons.prems have p: "pending w = Inr r # (map Inr (busy @ [final]) @ rest)" by simp
  let ?w1 = "w\<lparr>trace := trace w @ [Sleep 10, Request POST (API_URL self @ ''cmm/gts'')
                     (authed_api_headers pf self tk (time_sleep 10 w)) (PDict [(''xid'', PStr xid)])],
                clock := clock w + 10, pending := map Inr (busy @ [final]) @ rest\<rparr>"
  have "pending ?w1 = map Inr (busy @ [final]) @ rest" by simp
  from Cons.IH [OF this] Cons.prems(2,3) obtain w' es where
    IH: "poll_loop pf self tk xid ?w1 = Some (Inr True, w')" "pending w' = rest"
      "trace w' = trace ?w1 @ es"
      "map erase_headers es =
             concat (replicate (length busy + 1)
               [Sleep 10, Request POST (API_URL self @ ''cmm/gts'') [] (PDict [(''xid'', PStr xid)])])"
      "clock w' = clock ?w1 + 10 * (int (length busy) + 1)" "tokens w' = tokens ?w1"
    by auto
  from IH(1) have run: "poll_loop pf self tk xid w = Some (Inr True, w')"
    by (simp add: poll_loop_busy [OF p vs])
  from IH(3) have t: "trace w' = trace w @ ([Sleep 10, Request POST (API_URL self @ ''cmm/gts'')
                     (authed_api_headers pf self tk (time_sleep 10 w)) (PDict [(''xid'', PStr xid)])] @ es)"
    by simp
  have m: "map erase_headers ([Sleep 10, Request POST (API_URL self @ ''cmm/gts'')
                     (authed_api_headers pf self tk (time_sleep 10 w)) (PDict [(''xid'', PStr xid)])] @ es) =
           concat (replicate (length (r # busy) + 1)
               [Sleep 10, Request POST (API_URL self @ ''cmm/gts'') [] (PDict [(''xid'', PStr xid)])])"
    using IH(4) by (simp add: erase_headers_def)
  from IH(5) have c: "clock w' = clock w + 10 * (int (length (r # busy)) + 1)" by simp
  from IH(6) have k: "tokens w' = tokens w" by simp
  from run IH(2) t m c k show ?case by blast
qed

text \<open>
  Claim C4. The action poller first sleeps the grace period of 15 seconds; then every turn
  sleeps 10 seconds and polls the command-status endpoint with the handle. Whenever the
  network answers the polls with successful answers of which the first ones each have a
  non-zero sub-check and the next one has only zero sub-checks, the poller returns
  \<^verbatim>\<open>True\<close> after exactly that answer: the trace it adds is the grace sleep followed by
  one (sleep, poll) pair per answer, the answers after it are not consumed, and the
  clock has advanced by 15 + 10 per poll. For the answers \<^verbatim>\<open>{a:1,b:0}\<close>,
  \<^verbatim>\<open>{a:0,b:0}\<close> completion is reported after the second poll.
\<close>

theorem check_action_status_completes:
  assumes "pending w = map Inr (busy @ [final]) @ rest"
      and "\<forall>r \<in> set busy. \<exists>vs. sub_checks r = Some vs \<and> \<not> list_all (\<lambda>v. py_eq_int v 0) vs"
      and "\<exists>vs. sub_checks final = Some vs \<and> list_all (\<lambda>v. py_eq_int v 0) vs"
  shows "\<exists>w' es. check_action_status pf self tk xid w = Some (Inr True, w') \<and> pending w' = rest \<and>
           trace w' = trace w @ Sleep 15 # es \<and>
           map erase_headers es =
             concat (replicate (length busy + 1)
               [Sleep 10, Request POST (API_URL self @ ''cmm/gts'') [] (PDict [(''xid'', PStr xid)])]) \<and>
           clock w' = clock w + 15 + 10 * (int (length busy) + 1) \<and> tokens w' = tokens w"
proof -
  have p: "pending (time_sleep 15 w) = map Inr (busy @ [final]) @ rest"
    using assms(1) by (simp add: time_sleep_def)
  from poll_loop_completes [OF p assms(2,3), of pf self tk xid] obtain w' es where
    "poll_loop pf self tk xid (time_sleep 15 w) = Some (Inr True, w')" "pending w' = rest"
    "trace w' = trace (time_sleep 15 w) @ es"
    "map erase_headers es =
             concat (replicate (length busy + 1)
               [Sleep 10, Request POST (API_URL self @ ''cmm/gts'') [] (PDict [(''xid'', PStr xid)])])"
    "clock w' = clock (time_sleep 15 w) + 10 * (int (length busy) + 1)" "tokens w' = tokens (time_sleep 15 w)"
    by blast
  then show ?thesis
    by (simp add: check_action_status_def time_sleep_def)
qed

theorem check_action_status_completes_witness:
  "\<exists>w'. check_action_status demo_platform demo_self 0 ''X1''
          (demo_world [Inr (resp_poll 1 0), Inr (resp_poll 0 0), Inr resp_ok]) = Some (Inr True, w') \<and>
        pending w' = [Inr resp_ok] \<and>
        map erase_headers (trace w') =
          [Sleep 15,
           Sleep 10, Request POST ''https://api.owners.kia.com/apigw/v1/cmm/gts'' [] (PDict [(''xid'', PStr ''X1'')]),
           Sleep 10, Request POST ''https://api.owners.kia.com/apigw/v1/cmm/gts'' [] (PDict [(''xid'', PStr ''X1'')])] \<and>
        clock w' = 1035"
proof -
  have a: "pending (demo_world [Inr (resp_poll 1 0), Inr (resp_poll 0 0), Inr resp_ok]) =
             map Inr ([resp_poll 1 0] @ [resp_poll 0 0]) @ [Inr resp_ok]"
    by (simp add: demo_world_def)
  have b: "\<forall>r \<in> set [resp_poll 1 0]. \<exists>vs. sub_checks r = Some vs \<and> \<not> list_all (\<lambda>v. py_eq_int v 0) vs"
    by (simp add: sub_checks_def resp_poll_def status_field_def status_json_def ebind_def)
  have c: "\<exists>vs. sub_checks (resp_poll 0 0) = Some vs \<and> list_all (\<lambda>v. py_eq_int v 0) vs"
    by (simp add: sub_checks_def resp_poll_def status_field_def status_json_def ebind_def)
  from check_action_status_completes [OF a b c, of demo_platform demo_self 0 "''X1''"]
  show ?thesis
    by (auto simp: demo_world_def demo_API_URL erase_headers_def numeral_2_eq_2)
qed

section \<open>Properties: cached vehicle status\<close>

text \<open>Sequencing after a value and after an exception, a read that an assignment to
  another key does not change, and a computation that has not raised.\<close>

lemma ebind_Inr [simp]: "ebind (Inr x) f = f x"
  by (simp add: ebind_def)

lemma ebind_Inl [simp]: "ebind (Inl e) f = Inl e"
  by (simp add: ebind_def)

lemma path_dict_set:
  "k \<noteq> k' \<Longrightarrow> path (PDict (dict_set d k v)) (K k' # p) = path (PDict d) (K k' # p)"
  by (simp add: map_of_dict_set)

lemma not_isl_iff: "\<not> isl s \<longleftrightarrow> (\<exists>x. s = Inr x)"
  by (cases s) auto

text \<open>One copy, one read and the first read of a value that is not a mapping.\<close>

lemma ebind_copy_into:
  "ebind (copy_into (PDict ds) k p) f =
     (case path (PDict ds) p of Inl e \<Rightarrow> Inl e | Inr x \<Rightarrow> f (PDict (dict_set ds k x)))"
  by (simp add: copy_into_def ebind_def split: sum.splits)

lemma ebind_path:
  "ebind (path x p) f = (case path x p of Inl e \<Rightarrow> Inl e | Inr v \<Rightarrow> f v)"
  by (simp add: ebind_def)

lemma first_read_not_dict:
  "\<forall>d. vs \<noteq> PDict d \<Longrightarrow> path vs (K k # p) = Inl TypeError"
  by (cases vs) simp_all

text \<open>The normalization of a vehicle status that is a mapping, when the three reads of the
  response body and the conversion of the mileage succeed: the reads of the source
  mapping, in order (an assignment to a normalized key does not change a later read).\<close>

lemma vehicle_data_of_dict:
  assumes "path response_body status_path = Inr (PDict d)"
      and "path response_body mileage_path = Inr mileage" "py_float mileage = Inr odometer"
      and "path response_body location_path = Inr loc"
  shows "vehicle_data_of py_float response_body =
    (case path (PDict d) [K ''syncDate'', K ''utc''] of Inl e \<Rightarrow> Inl e | Inr x1 \<Rightarrow>
    (case path (PDict d) [K ''doorStatus''] of Inl e \<Rightarrow> Inl e | Inr x2 \<Rightarrow>
    (case path (PDict d) [K ''doorStatus'', K ''trunk''] of Inl e \<Rightarrow> Inl e | Inr x3 \<Rightarrow>
    (case path (PDict d) [K ''doorStatus'', K ''hood''] of Inl e \<Rightarrow> Inl e | Inr x4 \<Rightarrow>
    (case path (PDict d) [K ''tirePressure'', K ''all''] of Inl e \<Rightarrow> Inl e | Inr x5 \<Rightarrow>
    (case path (PDict d) [K ''climate'', K ''airCtrl''] of Inl e \<Rightarrow> Inl e | Inr x6 \<Rightarrow>
    (case path (PDict d) [K ''climate'', K ''defrost''] of Inl e \<Rightarrow> Inl e | Inr x7 \<Rightarrow>
    (case path (PDict d) [K ''climate'', K ''heatingAccessory'', K ''rearWindow''] of Inl e \<Rightarrow> Inl e | Inr x8 \<Rightarrow>
    (case path (PDict d) [K ''climate'', K ''heatingAccessory'', K ''sideMirror''] of Inl e \<Rightarrow> Inl e | Inr x9 \<Rightarrow>
    (case path (PDict d) [K ''climate'', K ''heatingAccessory'', K ''steeringWheel''] of Inl e \<Rightarrow> Inl e | Inr x10 \<Rightarrow>
    (case path (PDict d) [K ''climate'', K ''airTemp''] of Inl e \<Rightarrow> Inl e | Inr x11 \<Rightarrow>
       Inr (PDict [(''vehicleStatus'', PDict
             (dict_set (dict_set (dict_set (dict_set (dict_set (dict_set (dict_set (dict_set (dict_set
               (dict_set (dict_set d ''time'' x1) ''doorOpen'' x2) ''trunkOpen'' x3) ''hoodOpen'' x4)
               ''tirePressureLamp'' (PDict [(''tirePressureLampAll'', x5)])) ''airCtrlOn'' x6) ''defrost'' x7)
               ''sideBackWindowHeat'' x8) ''sideMirrorHeat'' x9) ''steerWheelHeat'' x10) ''airTemp'' x11)),
                       (''odometer'', PDict [(''value'', odometer), (''unit'', PInt 3)]),
                       (''vehicleLocation'', loc)]))))))))))))"
proof -
  have s: "path response_body [K ''payload'', K ''vehicleInfoList'', Idx0, K ''lastVehicleInfo'',
                                K ''vehicleStatusRpt'', K ''vehicleStatus''] = Inr (PDict d)"
    using assms(1) by (simp add: status_path_def)
  have m: "path response_body [K ''payload'', K ''vehicleInfoList'', Idx0, K ''vehicleConfig'',
                                K ''vehicleDetail'', K ''vehicle'', K ''mileage''] = Inr mileage"
    using assms(2) by (simp add: mileage_path_def)
  have l: "path response_body [K ''payload'', K ''vehicleInfoList'', Idx0, K ''lastVehicleInfo'',
                                K ''location''] = Inr loc"
    using assms(4) by (simp add: location_path_def)
  show ?thesis
    unfolding vehicle_data_of_def s m l ebind_Inr assms(3)
    by (simp add: ebind_copy_into ebind_path path_dict_set cong: sum.case_cong del: path.simps)
qed

text \<open>The normalization fails with the exception of the first evaluation that fails.\<close>

lemma vehicle_data_of_fails:
  assumes "first_error py_float response_body = Some e"
  shows "vehicle_data_of py_float response_body = Inl e"
proof (cases "path response_body status_path")
  case (Inl e1)
  then have "path response_body [K ''payload'', K ''vehicleInfoList'', Idx0, K ''lastVehicleInfo'',
                                K ''vehicleStatusRpt'', K ''vehicleStatus''] = Inl e1"
    by (simp add: status_path_def)
  then have "vehicle_data_of py_float response_body = Inl e1"
    by (simp only: vehicle_data_of_def ebind_Inl)
  with assms Inl show ?thesis by (simp add: first_error_def)
next
  case s: (Inr vs)
  then have s': "path response_body [K ''payload'', K ''vehicleInfoList'', Idx0, K ''lastVehicleInfo'',
                                K ''vehicleStatusRpt'', K ''vehicleStatus''] = Inr vs"
    by (simp add: status_path_def)
  show ?thesis
  proof (cases "path response_body mileage_path")
    case (Inl e1)
    then have "path response_body [K ''payload'', K ''vehicleInfoList'', Idx0, K ''vehicleConfig'',
                                K ''vehicleDetail'', K ''vehicle'', K ''mileage''] = Inl e1"
      by (simp add: mileage_path_def)
    then have "vehicle_data_of py_float response_body = Inl e1"
      by (simp only: vehicle_data_of_def s' ebind_Inr ebind_Inl)
    with assms s Inl show ?thesis by (simp add: first_error_def)
  next
    case m: (Inr mileage)
    then have m': "path response_body [K ''payload'', K ''vehicleInfoList'', Idx0, K ''vehicleConfig'',
                                K ''vehicleDetail'', K ''vehicle'', K ''mileage''] = Inr mileage"
      by (simp add: mileage_path_def)
    show ?thesis
    proof (cases "py_float mileage")
      case (Inl e1)
      then have "vehicle_data_of py_float response_body = Inl e1"
        by (simp only: vehicle_data_of_def s' m' ebind_Inr ebind_Inl)
      with assms s m Inl show ?thesis by (simp add: first_error_def)
    next
      case f: (Inr odometer)
      show ?thesis
      proof (cases "path response_body location_path")
        case (Inl e1)
        then have "path response_body [K ''payload'', K ''vehicleInfoList'', Idx0, K ''lastVehicleInfo'',
                                K ''location''] = Inl e1"
          by (simp add: location_path_def)
        then have "vehicle_data_of py_float response_body = Inl e1"
          by (simp only: vehicle_data_of_def s' m' f ebind_Inr ebind_Inl)
        with assms s m f Inl show ?thesis by (simp add: first_error_def)
      next
        case l: (Inr loc)
        then have l': "path response_body [K ''payload'', K ''vehicleInfoList'', Idx0, K ''lastVehicleInfo'',
                                K ''location''] = Inr loc"
          by (simp add: location_path_def)
        from assms s m f l have ff: "first_failure vs status_reads = Some e"
          by (simp add: first_error_def)
        show ?thesis
        proof (cases "\<exists>d. vs = PDict d")
          case False
          then have nd: "\<forall>d. vs \<noteq> PDict d" by simp
          have "vehicle_data_of py_float response_body = Inl TypeError"
            by (simp only: vehicle_data_of_def s' m' l' f ebind_Inr copy_into_def
                first_read_not_dict [OF nd] ebind_Inl)
          moreover from ff have "e = TypeError"
            by (simp add: status_reads_def first_read_not_dict [OF nd] del: path.simps)
          ultimately show ?thesis by simp
        next
          case True
          then obtain d where d: "vs = PDict d" by blast
          from ff show ?thesis
            unfolding vehicle_data_of_dict [where py_float = py_float, OF s [unfolded d] m f l] d status_reads_def
            by (simp split: sum.splits del: path.simps)
        qed
      qed
    qed
  qed
qed

text \<open>The normalization succeeds when no evaluation fails.\<close>

lemma vehicle_data_of_succeeds:
  assumes "first_error py_float response_body = None"
  shows "\<exists>d vs' mileage odometer loc.
           path response_body status_path = Inr (PDict d) \<and>
           path response_body mileage_path = Inr mileage \<and> py_float mileage = Inr odometer \<and>
           path response_body location_path = Inr loc \<and>
           vehicle_data_of py_float response_body =
             Inr (PDict [(''vehicleStatus'', PDict vs'),
                         (''odometer'', PDict [(''value'', odometer), (''unit'', PInt 3)]),
                         (''vehicleLocation'', loc)]) \<and>
           list_all (\<lambda>(k, p). getitem (PDict vs') k = path (PDict d) p) status_copies \<and>
           (\<exists>x. path (PDict d) [K ''tirePressure'', K ''all''] = Inr x \<and>
                map_of vs' ''tirePressureLamp'' = Some (PDict [(''tirePressureLampAll'', x)])) \<and>
           list_all (\<lambda>k. map_of vs' k \<noteq> None) status_keys \<and>
           (\<forall>k. k \<notin> set status_keys \<longrightarrow> map_of vs' k = map_of d k)"
proof -
  from assms obtain vs mileage odometer loc where
    s: "path response_body status_path = Inr vs" and
    m: "path response_body mileage_path = Inr mileage" and
    f: "py_float mileage = Inr odometer" and
    l: "path response_body location_path = Inr loc" and
    ff: "first_failure vs status_reads = None"
    by (auto simp: first_error_def split: sum.splits)
  from ff obtain d where d: "vs = PDict d"
    by (cases vs) (simp_all add: status_reads_def)
  from ff obtain x1 x2 x3 x4 x5 x6 x7 x8 x9 x10 x11 where x:
    "path (PDict d) [K ''syncDate'', K ''utc''] = Inr x1"
    "path (PDict d) [K ''doorStatus''] = Inr x2"
    "path (PDict d) [K ''doorStatus'', K ''trunk''] = Inr x3"
    "path (PDict d) [K ''doorStatus'', K ''hood''] = Inr x4"
    "path (PDict d) [K ''tirePressure'', K ''all''] = Inr x5"
    "path (PDict d) [K ''climate'', K ''airCtrl''] = Inr x6"
    "path (PDict d) [K ''climate'', K ''defrost''] = Inr x7"
    "path (PDict d) [K ''climate'', K ''heatingAccessory'', K ''rearWindow''] = Inr x8"
    "path (PDict d) [K ''climate'', K ''heatingAccessory'', K ''sideMirror''] = Inr x9"
    "path (PDict d) [K ''climate'', K ''heatingAccessory'', K ''steeringWheel''] = Inr x10"
    "path (PDict d) [K ''climate'', K ''airTemp''] = Inr x11"
    unfolding d status_reads_def
    by (auto split: sum.splits simp del: path.simps)
  let ?vs' = "dict_set (dict_set (dict_set (dict_set (dict_set (dict_set (dict_set (dict_set (dict_set
               (dict_set (dict_set d ''time'' x1) ''doorOpen'' x2) ''trunkOpen'' x3) ''hoodOpen'' x4)
               ''tirePressureLamp'' (PDict [(''tirePressureLampAll'', x5)])) ''airCtrlOn'' x6) ''defrost'' x7)
               ''sideBackWindowHeat'' x8) ''sideMirrorHeat'' x9) ''steerWheelHeat'' x10) ''airTemp'' x11"
  have r: "vehicle_data_of py_float response_body =
             Inr (PDict [(''vehicleStatus'', PDict ?vs'),
                         (''odometer'', PDict [(''value'', odometer), (''unit'', PInt 3)]),
                         (''vehicleLocation'', loc)])"
    unfolding vehicle_data_of_dict [where py_float = py_float, OF s [unfolded d] m f l] x by simp
  have c: "list_all (\<lambda>(k, p). getitem (PDict ?vs') k = path (PDict d) p) status_copies"
    unfolding status_copies_def by (simp add: x map_of_dict_set del: path.simps)
  have t: "map_of ?vs' ''tirePressureLamp'' = Some (PDict [(''tirePressureLampAll'', x5)])"
    by (simp add: map_of_dict_set)
  have k: "list_all (\<lambda>k. map_of ?vs' k \<noteq> None) status_keys"
    by (simp add: status_keys_def map_of_dict_set)
  have o: "\<forall>k. k \<notin> set status_keys \<longrightarrow> map_of ?vs' k = map_of d k"
    by (simp add: status_keys_def map_of_dict_set)
  from s [unfolded d] m f l r c t x(5) k o show ?thesis by blast
qed

text \<open>A vehicle status without the tire-pressure section.\<close>

lemma first_error_without_tirePressure:
  assumes "path response_body status_path = Inr (PDict d)" "map_of d ''tirePressure'' = None"
  shows "first_error py_float response_body \<noteq> None"
    and "path response_body mileage_path = Inr mileage \<Longrightarrow> py_float mileage = Inr odometer \<Longrightarrow>
         path response_body location_path = Inr loc \<Longrightarrow>
         list_all (\<lambda>p. \<not> isl (path (PDict d) p)) (take 4 status_reads) \<Longrightarrow>
         first_error py_float response_body = Some KeyError"
proof -
  have t: "path (PDict d) [K ''tirePressure'', K ''all''] = Inl KeyError"
    using assms(2) by simp
  show "first_error py_float response_body \<noteq> None"
    unfolding first_error_def status_reads_def
    by (simp add: assms(1) t split: sum.splits del: path.simps)
  show "first_error py_float response_body = Some KeyError"
    if "path response_body mileage_path = Inr mileage" "py_float mileage = Inr odometer"
      "path response_body location_path = Inr loc"
      "list_all (\<lambda>p. \<not> isl (path (PDict d) p)) (take 4 status_reads)"
    using that unfolding first_error_def status_reads_def
    by (auto simp: assms(1) t not_isl_iff simp del: path.simps)
qed

text \<open>
  Claim C6, as amended. The normalization has no absence markers: every field is read with
  a plain subscript. For every response body and every behaviour of \<^verbatim>\<open>float\<close>: when one
  of the evaluations fails, the normalization fails with the exception of the first one
  that does (\<^verbatim>\<open>KeyError\<close> for a missing key, \<^verbatim>\<open>TypeError\<close> where the value subscripted
  is \<^verbatim>\<open>null\<close> or otherwise no mapping, the exception of \<^verbatim>\<open>float\<close> for a mileage it
  rejects); when none fails, the vehicle status is a mapping and the normalization
  returns the record of the stable shape: vehicleStatus
  (the source mapping, in which each of the ten copied keys holds the value of the read it
  copies, \<^verbatim>\<open>tirePressureLamp\<close> holds the mapping of \<^verbatim>\<open>tirePressureLampAll\<close> to
  \<^verbatim>\<open>tirePressure.all\<close>, all eleven normalized keys are present and every other key is as
  in the source), odometer (the float of the mileage, unit 3) and vehicleLocation. So the
  normalization succeeds exactly when every read and the conversion succeed. In
  particular it always fails on a vehicle status without the tire-pressure section, and
  with \<^verbatim>\<open>KeyError\<close> when the evaluations before that read succeed.
\<close>

theorem vehicle_data_of_needs_every_section:
  "(\<forall>e. first_error py_float response_body = Some e \<longrightarrow>
        vehicle_data_of py_float response_body = Inl e) \<and>
   (first_error py_float response_body = None \<longrightarrow>
      (\<exists>d vs' mileage odometer loc.
         path response_body status_path = Inr (PDict d) \<and>
         path response_body mileage_path = Inr mileage \<and> py_float mileage = Inr odometer \<and>
         path response_body location_path = Inr loc \<and>
         vehicle_data_of py_float response_body =
           Inr (PDict [(''vehicleStatus'', PDict vs'),
                       (''odometer'', PDict [(''value'', odometer), (''unit'', PInt 3)]),
                       (''vehicleLocation'', loc)]) \<and>
         list_all (\<lambda>(k, p). getitem (PDict vs') k = path (PDict d) p) status_copies \<and>
         (\<exists>x. path (PDict d) [K ''tirePressure'', K ''all''] = Inr x \<and>
              map_of vs' ''tirePressureLamp'' = Some (PDict [(''tirePressureLampAll'', x)])) \<and>
         list_all (\<lambda>k. map_of vs' k \<noteq> None) status_keys \<and>
         (\<forall>k. k \<notin> set status_keys \<longrightarrow> map_of vs' k = map_of d k))) \<and>
   (\<forall>d. path response_body status_path = Inr (PDict d) \<and> map_of d ''tirePressure'' = None \<longrightarrow>
      (\<exists>e. vehicle_data_of py_float response_body = Inl e) \<and>
      (\<forall>mileage odometer loc.
         path response_body mileage_path = Inr mileage \<and> py_float mileage = Inr odometer \<and>
         path response_body location_path = Inr loc \<and>
         list_all (\<lambda>p. \<not> isl (path (PDict d) p)) (take 4 status_reads) \<longrightarrow>
         vehicle_data_of py_float response_body = Inl KeyError))"
proof (intro conjI allI impI)
  fix e assume "first_error py_float response_body = Some e"
  then show "vehicle_data_of py_float response_body = Inl e" by (rule vehicle_data_of_fails)
next
  assume "first_error py_float response_body = None"
  then show "\<exists>d vs' mileage odometer loc.
         path response_body status_path = Inr (PDict d) \<and>
         path response_body mileage_path = Inr mileage \<and> py_float mileage = Inr odometer \<and>
         path response_body location_path = Inr loc \<and>
         vehicle_data_of py_float response_body =
           Inr (PDict [(''vehicleStatus'', PDict vs'),
                       (''odometer'', PDict [(''value'', odometer), (''unit'', PInt 3)]),
                       (''vehicleLocation'', loc)]) \<and>
         list_all (\<lambda>(k, p). getitem (PDict vs') k = path (PDict d) p) status_copies \<and>
         (\<exists>x. path (PDict d) [K ''tirePressure'', K ''all''] = Inr x \<and>
              map_of vs' ''tirePressureLamp'' = Some (PDict [(''tirePressureLampAll'', x)])) \<and>
         list_all (\<lambda>k. map_of vs' k \<noteq> None) status_keys \<and>
         (\<forall>k. k \<notin> set status_keys \<longrightarrow> map_of vs' k = map_of d k)"
    by (rule vehicle_data_of_succeeds)
next
  fix d assume a: "path response_body status_path = Inr (PDict d) \<and> map_of d ''tirePressure'' = None"
  then obtain e where "first_error py_float response_body = Some e"
    using first_error_without_tirePressure(1) [of response_body d py_float] by auto
  then show "\<exists>e. vehicle_data_of py_float response_body = Inl e"
    using vehicle_data_of_fails by blast
next
  fix d mileage odometer loc
  assume a: "path response_body status_path = Inr (PDict d) \<and> map_of d ''tirePressure'' = None"
    and b: "path response_body mileage_path = Inr mileage \<and> py_float mileage = Inr odometer \<and>
         path response_body location_path = Inr loc \<and>
         list_all (\<lambda>p. \<not> isl (path (PDict d) p)) (take 4 status_reads)"
  from a b have "first_error py_float response_body = Some KeyError"
    using first_error_without_tirePressure(2) [where py_float = py_float, of response_body d mileage odometer loc]
    by blast
  then show "vehicle_data_of py_float response_body = Inl KeyError" by (rule vehicle_data_of_fails)
qed

text \<open>
  Claim C6 as stated fails: on a response with every section but the tire-pressure data,
  the normalization raises the exception of \<^verbatim>\<open>float\<close> when the mileage is rejected and
  \<^verbatim>\<open>KeyError\<close> otherwise; it returns no record, whatever \<^verbatim>\<open>float\<close> does.
\<close>

theorem vehicle_data_of_without_tirePressure_fails:
  "\<forall>py_float. vehicle_data_of py_float (demo_status_body demo_vehicleStatus_no_tirePressure) =
     (case py_float (PStr ''1234'') of Inl e \<Rightarrow> Inl e | Inr odometer \<Rightarrow> Inl KeyError)"
  by (simp add: vehicle_data_of_def demo_status_body_def demo_vehicleStatus_no_tirePressure_def
      copy_into_def ebind_def split: sum.splits)

theorem vehicle_data_of_needs_every_section_witness:
  "\<forall>py_float.
     (case py_float (PStr ''1234'') of
        Inl e \<Rightarrow>
          vehicle_data_of py_float (demo_status_body demo_vehicleStatus) = Inl e
      | Inr odometer \<Rightarrow>
          (\<exists>vs'. vehicle_data_of py_float (demo_status_body demo_vehicleStatus) =
               Inr (PDict [(''vehicleStatus'', PDict vs'),
                           (''odometer'', PDict [(''value'', odometer), (''unit'', PInt 3)]),
                           (''vehicleLocation'', PDict [(''lat'', PInt 40), (''lon'', PInt 74)])]) \<and>
               map_of vs' ''time'' = Some (PStr ''20211018'') \<and>
               map_of vs' ''tirePressureLamp'' = Some (PDict [(''tirePressureLampAll'', PInt 0)]) \<and>
               list_all (\<lambda>k. map_of vs' k \<noteq> None) status_keys) \<and>
          vehicle_data_of py_float (demo_status_body demo_vehicleStatus_no_tirePressure) = Inl KeyError \<and>
          vehicle_data_of py_float (demo_status_body demo_vehicleStatus_null_tirePressure) = Inl TypeError)"
proof
  fix py_float :: "pyval \<Rightarrow> exn + pyval"
  have p: "path (demo_status_body vs) status_path = Inr (PDict vs)"
    "path (demo_status_body vs) mileage_path = Inr (PStr ''1234'')"
    "path (demo_status_body vs) location_path = Inr (PDict [(''lat'', PInt 40), (''lon'', PInt 74)])"
    for vs
    by (simp_all add: demo_status_body_def status_path_def mileage_path_def location_path_def)
  show "case py_float (PStr ''1234'') of
        Inl e \<Rightarrow>
          vehicle_data_of py_float (demo_status_body demo_vehicleStatus) = Inl e
      | Inr odometer \<Rightarrow>
          (\<exists>vs'. vehicle_data_of py_float (demo_status_body demo_vehicleStatus) =
               Inr (PDict [(''vehicleStatus'', PDict vs'),
                           (''odometer'', PDict [(''value'', odometer), (''unit'', PInt 3)]),
                           (''vehicleLocation'', PDict [(''lat'', PInt 40), (''lon'', PInt 74)])]) \<and>
               map_of vs' ''time'' = Some (PStr ''20211018'') \<and>
               map_of vs' ''tirePressureLamp'' = Some (PDict [(''tirePressureLampAll'', PInt 0)]) \<and>
               list_all (\<lambda>k. map_of vs' k \<noteq> None) status_keys) \<and>
          vehicle_data_of py_float (demo_status_body demo_vehicleStatus_no_tirePressure) = Inl KeyError \<and>
          vehicle_data_of py_float (demo_status_body demo_vehicleStatus_null_tirePressure) = Inl TypeError"
  proof (cases "py_float (PStr ''1234'')")
    case (Inl e)
    then have "first_error py_float (demo_status_body demo_vehicleStatus) = Some e"
      by (simp add: first_error_def p)
    with vehicle_data_of_needs_every_section [of py_float "demo_status_body demo_vehicleStatus"] Inl
    show ?thesis by simp
  next
    case (Inr odometer)
    have a: "first_error py_float (demo_status_body demo_vehicleStatus) = None"
      by (simp add: first_error_def p Inr status_reads_def demo_vehicleStatus_def)
    have b: "first_error py_float (demo_status_body demo_vehicleStatus_no_tirePressure) = Some KeyError"
      by (simp add: first_error_def p Inr status_reads_def demo_vehicleStatus_no_tirePressure_def)
    have c: "first_error py_float (demo_status_body demo_vehicleStatus_null_tirePressure) = Some TypeError"
      by (simp add: first_error_def p Inr status_reads_def demo_vehicleStatus_null_tirePressure_def)
    from vehicle_data_of_needs_every_section [of py_float "demo_status_body demo_vehicleStatus"] a
    obtain d vs' where
      r: "path (demo_status_body demo_vehicleStatus) status_path = Inr (PDict d)"
        "vehicle_data_of py_float (demo_status_body demo_vehicleStatus) =
           Inr (PDict [(''vehicleStatus'', PDict vs'),
                       (''odometer'', PDict [(''value'', odometer), (''unit'', PInt 3)]),
                       (''vehicleLocation'', PDict [(''lat'', PInt 40), (''lon'', PInt 74)])])"
        "list_all (\<lambda>(k, p). getitem (PDict vs') k = path (PDict d) p) status_copies"
        "\<exists>x. path (PDict d) [K ''tirePressure'', K ''all''] = Inr x \<and>
              map_of vs' ''tirePressureLamp'' = Some (PDict [(''tirePressureLampAll'', x)])"
        "list_all (\<lambda>k. map_of vs' k \<noteq> None) status_keys"
      by (auto simp: p Inr)
    from r(1) have d: "d = demo_vehicleStatus" by (simp add: p)
    from r(3) have "map_of vs' ''time'' = Some (PStr ''20211018'')"
      by (simp add: status_copies_def d demo_vehicleStatus_def split: option.splits)
    moreover from r(4) have "map_of vs' ''tirePressureLamp'' = Some (PDict [(''tirePressureLampAll'', PInt 0)])"
      by (simp add: d demo_vehicleStatus_def)
    moreover from vehicle_data_of_needs_every_section [of py_float "demo_status_body demo_vehicleStatus_no_tirePressure"] b
    have "vehicle_data_of py_float (demo_status_body demo_vehicleStatus_no_tirePressure) = Inl KeyError"
      by simp
    moreover from vehicle_data_of_needs_every_section [of py_float "demo_status_body demo_vehicleStatus_null_tirePressure"] c
    have "vehicle_data_of py_float (demo_status_body demo_vehicleStatus_null_tirePressure) = Inl TypeError"
      by simp
    ultimately show ?thesis using r(2,5) Inr by auto
  qed
qed

section \<open>Properties: the vehicle commands\<close>

text \<open>One guarded GET call whose answer is a successful one.\<close>

lemma get_request_ok:
  assumes "pending w = Inr r # rest" "sub_checks r = Some vs"
  shows "get_request_with_logging_and_active_session pf self
           \<lparr>kw_token = Some tk, kw_url = Some url, kw_json_body = None, kw_headers = None\<rparr> w =
         (Inr r, w\<lparr>trace := trace w @ [Request GET url (authed_api_headers pf self tk w) PNone],
                   pending := rest\<rparr>)"
  using assms
  by (auto simp: get_request_with_logging_and_active_session_def request_with_active_session_def
      request_with_logging_def get_request_def requests_send_def sub_checks_def
      split: option.splits sum.splits if_splits)

text \<open>
  Claim C8 at the lock command. On a network that would accept the command with the handle
  \<^verbatim>\<open>X1\<close> in the response headers and confirm it at the first poll, \<^verbatim>\<open>lock_action\<close>
  raises \<^verbatim>\<open>TypeError\<close> for \<^verbatim>\<open>"close"\<close> and for any other action, sends nothing,
  extracts no handle and never reaches the poller, while the sibling \<^verbatim>\<open>stop_climate\<close>,
  which calls the same decorated GET method without the \<^verbatim>\<open>headers\<close> keyword, sends its
  request, takes the handle from the response headers and polls with it until
  completion.
\<close>

theorem lock_action_sends_nothing:
  "lock_action demo_platform demo_self 0 (PStr ''close'')
      (demo_world [Inr resp_command, Inr (resp_poll 0 0)]) =
     Some (Inl TypeError, demo_world [Inr resp_command, Inr (resp_poll 0 0)]) \<and>
   lock_action demo_platform demo_self 0 (PStr ''open'')
      (demo_world [Inr resp_command, Inr (resp_poll 0 0)]) =
     Some (Inl TypeError, demo_world [Inr resp_command, Inr (resp_poll 0 0)]) \<and>
   (\<exists>w'. stop_climate demo_platform demo_self 0 (demo_world [Inr resp_command, Inr (resp_poll 0 0)]) =
            Some (Inr (), w') \<and>
          map erase_headers (trace w') =
            [Request GET ''https://api.owners.kia.com/apigw/v1/rems/stop'' [] PNone,
             Sleep 15, Sleep 10,
             Request POST ''https://api.owners.kia.com/apigw/v1/cmm/gts'' [] (PDict [(''xid'', PStr ''X1'')])])"
proof -
  define w where "w = demo_world [Inr resp_command, Inr (resp_poll 0 0)]"
  define w1 where "w1 = w\<lparr>trace := trace w @ [Request GET (API_URL demo_self @ ''rems/stop'')
                 (authed_api_headers demo_platform demo_self 0 w) PNone],
               pending := [Inr (resp_poll 0 0)]\<rparr>"
  have lock: "lock_action demo_platform demo_self 0 action w = Some (Inl TypeError, w)" for action
    by (simp add: lock_action_def get_request_with_logging_and_active_session_def
      request_with_active_session_def request_with_logging_def get_request_def)
  have p: "pending w = Inr resp_command # [Inr (resp_poll 0 0)]"
    by (simp add: w_def demo_world_def)
  have c: "sub_checks resp_command = Some []"
    by (simp add: sub_checks_def resp_command_def status_field_def status_json_def)
  have z: "\<exists>vs. sub_checks (resp_poll 0 0) = Some vs \<and> list_all (\<lambda>v. py_eq_int v 0) vs"
    by (simp add: sub_checks_def resp_poll_def status_field_def status_json_def)
  have p15: "pending (time_sleep 15 w1) = map Inr ([] @ [resp_poll 0 0]) @ []"
    by (simp add: time_sleep_def w1_def)
  from poll_loop_completes [OF p15 _ z, of demo_platform demo_self 0 "''X1''"] obtain w' es where
    w': "poll_loop demo_platform demo_self 0 ''X1'' (time_sleep 15 w1) = Some (Inr True, w')"
      "trace w' = trace (time_sleep 15 w1) @ es"
      "map erase_headers es =
         [Sleep 10, Request POST (API_URL demo_self @ ''cmm/gts'') [] (PDict [(''xid'', PStr ''X1'')])]"
    by auto
  have h: "map_of (resp_headers resp_command) ''Xid'' = Some ''X1''"
    by (simp add: resp_command_def)
  have g: "get_request_with_logging_and_active_session demo_platform demo_self
           \<lparr>kw_token = Some 0, kw_url = Some (API_URL demo_self @ ''rems/stop''), kw_json_body = None,
              kw_headers = None\<rparr> w = (Inr resp_command, w1)"
    unfolding w1_def by (rule get_request_ok [OF p c])
  have sc: "stop_climate demo_platform demo_self 0 w = Some (Inr (), w')"
    by (simp add: stop_climate_def g poll_Xid_def h check_action_status_def w'(1))
  from w'(2,3) have tr: "map erase_headers (trace w') =
            [Request GET ''https://api.owners.kia.com/apigw/v1/rems/stop'' [] PNone,
             Sleep 15, Sleep 10,
             Request POST ''https://api.owners.kia.com/apigw/v1/cmm/gts'' [] (PDict [(''xid'', PStr ''X1'')])]"
    by (simp add: time_sleep_def w1_def w_def demo_world_def demo_API_URL erase_headers_def)
  have "\<exists>w'. stop_climate demo_platform demo_self 0 w = Some (Inr (), w') \<and>
          map erase_headers (trace w') =
            [Request GET ''https://api.owners.kia.com/apigw/v1/rems/stop'' [] PNone,
             Sleep 15, Sleep 10,
             Request POST ''https://api.owners.kia.com/apigw/v1/cmm/gts'' [] (PDict [(''xid'', PStr ''X1'')])]"
    by (rule exI [of _ w']) (simp add: sc tr)
  with lock [of "PStr ''close''"] lock [of "PStr ''open''"] show ?thesis
    unfolding w_def by simp
qed

text \<open>
  The other commands, on a network whose next answer is a successful one: climate start
  and stop and charge start and stop send their one request and then run
  \<^verbatim>\<open>check_action_status\<close> with the \<^verbatim>\<open>Xid\<close> header of the response (a \<^verbatim>\<open>KeyError\<close> when
  the header is missing; the body is not looked at), and \<^verbatim>\<open>update_vehicle_status\<close>
  sends its one request and returns, with no sleep and no poll.
\<close>

theorem commands_poll_with_header_handle:
  assumes "pending w = Inr r # rest" "sub_checks r = Some vs"
  shows "stop_climate pf self tk w =
           poll_Xid pf self tk r
             (w\<lparr>trace := trace w @ [Request GET (API_URL self @ ''rems/stop'')
                                      (authed_api_headers pf self tk w) PNone],
                pending := rest\<rparr>) \<and>
         stop_charge pf self tk w =
           poll_Xid pf self tk r
             (w\<lparr>trace := trace w @ [Request GET (API_URL self @ ''evc/cancel'')
                                      (authed_api_headers pf self tk w) PNone],
                pending := rest\<rparr>) \<and>
         start_charge pf self tk w =
           poll_Xid pf self tk r
             (w\<lparr>trace := trace w @ [Request POST (API_URL self @ ''evc/charge'')
                                      (authed_api_headers pf self tk w) (PDict [(''chargeRatio'', PInt 100)])],
                pending := rest\<rparr>) \<and>
         start_climate pf self tk set_temp duration defrost climate heating w =
           poll_Xid pf self tk r
             (w\<lparr>trace := trace w @ [Request POST (API_URL self @ ''rems/start'')
                  (authed_api_headers pf self tk w)
                  (PDict
                    [(''remoteClimate'', PDict
                       [(''airCtrl'', climate),
                        (''airTemp'', PDict [(''unit'', PInt 1), (''value'', PStr (str_int set_temp))]),
                        (''defrost'', defrost),
                        (''heatingAccessory'', PDict
                           [(''rearWindow'', PInt (if heating then 1 else 0)),
                            (''sideMirror'', PInt (if heating then 1 else 0)),
                            (''steeringWheel'', PInt (if heating then 1 else 0))]),
                        (''ignitionOnDuration'', PDict [(''unit'', PInt 4), (''value'', duration)])])])],
                pending := rest\<rparr>) \<and>
         update_vehicle_status pf self tk w =
           (Inr (),
            w\<lparr>trace := trace w @ [Request POST (API_URL self @ ''rems/rvs'')
                                     (authed_api_headers pf self tk w) (PDict [(''requestType'', PInt 0)])],
              pending := rest\<rparr>)"
  by (simp add: stop_climate_def stop_charge_def start_charge_def start_climate_def
      update_vehicle_status_def Let_def poll_request_ok [OF assms] get_request_ok [OF assms])

theorem commands_poll_with_header_handle_witness:
  "update_vehicle_status demo_platform demo_self 0 (demo_world [Inr resp_command, Inr (resp_poll 0 0)]) =
     (Inr (),
      demo_world [Inr resp_command, Inr (resp_poll 0 0)]
        \<lparr>trace := [Request POST ''https://api.owners.kia.com/apigw/v1/rems/rvs''
                     (authed_api_headers demo_platform demo_self 0
                        (demo_world [Inr resp_command, Inr (resp_poll 0 0)]))
                     (PDict [(''requestType'', PInt 0)])],
          pending := [Inr (resp_poll 0 0)]\<rparr>) \<and>
   stop_charge demo_platform demo_self 0 (demo_world [Inr resp_command, Inr (resp_poll 0 0)]) =
     poll_Xid demo_platform demo_self 0 resp_command
       (demo_world [Inr resp_command, Inr (resp_poll 0 0)]
        \<lparr>trace := [Request GET ''https://api.owners.kia.com/apigw/v1/evc/cancel''
                     (authed_api_headers demo_platform demo_self 0
                        (demo_world [Inr resp_command, Inr (resp_poll 0 0)])) PNone],
          pending := [Inr (resp_poll 0 0)]\<rparr>)"
proof -
  have p: "pending (demo_world [Inr resp_command, Inr (resp_poll 0 0)]) = Inr resp_command # [Inr (resp_poll 0 0)]"
    by (simp add: demo_world_def)
  have c: "sub_checks resp_command = Some []"
    by (simp add: sub_checks_def resp_command_def status_field_def status_json_def)
  have t: "trace (demo_world [Inr resp_command, Inr (resp_poll 0 0)]) = []"
    by (simp add: demo_world_def)
  from commands_poll_with_header_handle [OF p c, of demo_platform demo_self 0]
  show ?thesis by (simp add: demo_API_URL t)
qed

end
